theory Spec2Isabelle
  imports Complex_Main
begin

section \<open>Python values and exceptions\<close>

text \<open>
  Values that cross the dynamically typed boundaries of the program: the result of
  \<^verbatim>\<open>json.loads\<close>, keyword arguments of a tool, the \<^verbatim>\<open>output\<close> of a tool. A dict is an
  association list in insertion order. A Python float is carried as a real number:
  the program never computes with one, it only passes distances and vectors along.
\<close>

datatype pyval =
    PNone
  | PBool bool
  | PInt int
  | PFloat real
  | PStr string
  | PList "pyval list"
  | PDict "(string \<times> pyval) list"

text \<open>
  The classes up to \<open>OtherException\<close> (any other subclass of \<^verbatim>\<open>Exception\<close>) are what
  \<^verbatim>\<open>except Exception\<close> catches. \<^verbatim>\<open>SystemExit\<close> and \<^verbatim>\<open>KeyboardInterrupt\<close> derive from
  \<^verbatim>\<open>BaseException\<close> only and pass such a handler. \<open>NoReturn\<close> is no exception: it is
  the outcome of a call that never comes back, carried in the place of an exception
  because, like an exception that no handler catches, it ends whatever would have
  followed. It comes from the calls that may run without end, \<^verbatim>\<open>eval\<close> and the
  retrieval behind the knowledge-base tool; \<^verbatim>\<open>json.loads\<close> and \<^verbatim>\<open>json.dumps\<close> end on
  every input.
\<close>

datatype exn_class =
  KeyError | TypeError | ValueError | IndexError | AttributeError | OtherException
  | SystemExit | KeyboardInterrupt | NoReturn

text \<open>An exception is its class and its message (\<^verbatim>\<open>str(e)\<close>).\<close>

datatype py_exception = Exn exn_class string

text \<open>What a handler \<^verbatim>\<open>except Exception\<close> catches.\<close>

fun is_Exception :: "py_exception \<Rightarrow> bool" where
  "is_Exception (Exn c m) = (c \<noteq> SystemExit \<and> c \<noteq> KeyboardInterrupt \<and> c \<noteq> NoReturn)"

fun str_exn :: "py_exception \<Rightarrow> string" where
  "str_exn (Exn c m) = m"

text \<open>Truthiness, as \<^verbatim>\<open>if v:\<close> tests it.\<close>

fun py_truthy :: "pyval \<Rightarrow> bool" where
  "py_truthy PNone = False"
| "py_truthy (PBool b) = b"
| "py_truthy (PInt n) = (n \<noteq> 0)"
| "py_truthy (PFloat r) = (r \<noteq> 0)"
| "py_truthy (PStr s) = (s \<noteq> [])"
| "py_truthy (PList xs) = (xs \<noteq> [])"
| "py_truthy (PDict kvs) = (kvs \<noteq> [])"

text \<open>\<^verbatim>\<open>v[key]\<close> with a string key: only a dict can be subscripted by a string.\<close>

fun py_getitem :: "pyval \<Rightarrow> string \<Rightarrow> py_exception + pyval" where
  "py_getitem (PDict kvs) k =
     (case map_of kvs k of
        None \<Rightarrow> Inl (Exn KeyError k)
      | Some v \<Rightarrow> Inr v)"
| "py_getitem v k = Inl (Exn TypeError ''indices must be integers or object is not subscriptable'')"

text \<open>\<^verbatim>\<open>d.get(key, default)\<close> on a dict.\<close>

type_synonym pydict = "(string \<times> pyval) list"

definition dict_get :: "pydict \<Rightarrow> string \<Rightarrow> pyval \<Rightarrow> pyval" where
  "dict_get kvs k d = (case map_of kvs k of None \<Rightarrow> d | Some v \<Rightarrow> v)"

text \<open>\<^verbatim>\<open>d[k] = v\<close>: an existing key keeps its position, a new key goes last.\<close>

fun dict_set :: "'k \<Rightarrow> 'v \<Rightarrow> ('k \<times> 'v) list \<Rightarrow> ('k \<times> 'v) list" where
  "dict_set k v [] = [(k, v)]"
| "dict_set k v ((k', v') # kvs) =
     (if k' = k then (k, v) # kvs else (k', v') # dict_set k v kvs)"

text \<open>
  The parts of the interpreter and of the libraries that the program calls and that are
  not code of the repository, taken as parameters:
  \<^verbatim>\<open>str()\<close> of a value that is not a string, the restricted \<^verbatim>\<open>eval\<close> of the
  calculator, the two readings of the clock (\<^verbatim>\<open>datetime.now().isoformat()\<close> and the
  elapsed \<^verbatim>\<open>time.time()\<close>), and the \<^verbatim>\<open>json\<close> module. Each returns its exception as a
  value; an \<^verbatim>\<open>eval\<close> that does not end is the value \<open>NoReturn\<close>.
\<close>

record runtime =
  py_str :: "pyval \<Rightarrow> string"
  py_eval :: "pyval \<Rightarrow> py_exception + pyval"
  now_isoformat :: string
  elapsed_seconds :: real
  json_loads :: "string \<Rightarrow> py_exception + pyval"
  json_dumps :: "pyval \<Rightarrow> py_exception + string"

text \<open>A value inside an f-string: a string stands for itself.\<close>

fun py_format :: "runtime \<Rightarrow> pyval \<Rightarrow> string" where
  "py_format rt (PStr s) = s"
| "py_format rt v = py_str rt v"

section \<open>Tools (src/agent/tools.py)\<close>

record ToolResult =
  success :: bool
  "output" :: pyval
  error :: "string option"

type_synonym kwargs = pydict

text \<open>
  Binding \<^verbatim>\<open>**kwargs\<close> to the parameters of a method happens before its body runs, so
  outside the \<^verbatim>\<open>try\<close> of the body: a keyword that is no parameter, or a parameter
  without default that receives no value, raises TypeError at the call.
\<close>

definition unexpected_keywords :: "string list \<Rightarrow> kwargs \<Rightarrow> string list" where
  "unexpected_keywords params kw = filter (\<lambda>k. k \<notin> set params) (map fst kw)"

definition unexpected_keyword :: "string \<Rightarrow> py_exception" where
  "unexpected_keyword k = Exn TypeError (''execute() got an unexpected keyword argument '' @ k)"

definition missing_argument :: "string \<Rightarrow> py_exception" where
  "missing_argument k = Exn TypeError (''execute() missing 1 required positional argument: '' @ k)"

type_synonym retrieve_fn = "pyval \<Rightarrow> pyval \<Rightarrow> py_exception + pyval list"

text \<open>
  \<^verbatim>\<open>KnowledgeBaseTool.execute(self, query, top_k=5)\<close>; the pipeline's \<^verbatim>\<open>retrieve\<close>
  is the tool's collaborator. The handler of the body is \<^verbatim>\<open>except Exception\<close>: what it
  does not catch leaves \<^verbatim>\<open>execute\<close>.
\<close>

definition KnowledgeBaseTool_execute :: "retrieve_fn \<Rightarrow> kwargs \<Rightarrow> py_exception + ToolResult" where
  "KnowledgeBaseTool_execute rag_retrieve kw =
     (case unexpected_keywords [''query'', ''top_k''] kw of
        k # _ \<Rightarrow> Inl (unexpected_keyword k)
      | [] \<Rightarrow>
          (case map_of kw ''query'' of
             None \<Rightarrow> Inl (missing_argument ''query'')
           | Some query \<Rightarrow>
               (let top_k = dict_get kw ''top_k'' (PInt 5) in
                case rag_retrieve query top_k of
                  Inr results \<Rightarrow>
                    Inr \<lparr>success = True,
                         output = PDict [(''query'', query),
                                         (''results'', PList results),
                                         (''count'', PInt (int (length results)))],
                         error = None\<rparr>
                | Inl e \<Rightarrow>
                    if is_Exception e
                    then Inr \<lparr>success = False, output = PNone, error = Some (str_exn e)\<rparr>
                    else Inl e)))"

text \<open>
  \<^verbatim>\<open>CalculatorTool.execute(self, expression)\<close>. The handler around \<^verbatim>\<open>eval\<close> is
  \<^verbatim>\<open>except Exception\<close>: a \<^verbatim>\<open>SystemExit\<close> that the expression raises, or an evaluation
  that does not end, is not turned into a result.
\<close>

definition CalculatorTool_execute :: "runtime \<Rightarrow> kwargs \<Rightarrow> py_exception + ToolResult" where
  "CalculatorTool_execute rt kw =
     (case unexpected_keywords [''expression''] kw of
        k # _ \<Rightarrow> Inl (unexpected_keyword k)
      | [] \<Rightarrow>
          (case map_of kw ''expression'' of
             None \<Rightarrow> Inl (missing_argument ''expression'')
           | Some expression \<Rightarrow>
               (case py_eval rt expression of
                  Inr result \<Rightarrow>
                    Inr \<lparr>success = True,
                         output = PDict [(''expression'', expression), (''result'', result)],
                         error = None\<rparr>
                | Inl e \<Rightarrow>
                    if is_Exception e
                    then Inr \<lparr>success = False, output = PNone,
                              error = Some (''Calculation error: '' @ str_exn e)\<rparr>
                    else Inl e)))"

text \<open>\<^verbatim>\<open>WebSearchTool.execute(self, query)\<close>: nothing in its body raises.\<close>

definition WebSearchTool_execute :: "runtime \<Rightarrow> kwargs \<Rightarrow> py_exception + ToolResult" where
  "WebSearchTool_execute rt kw =
     (case unexpected_keywords [''query''] kw of
        k # _ \<Rightarrow> Inl (unexpected_keyword k)
      | [] \<Rightarrow>
          (case map_of kw ''query'' of
             None \<Rightarrow> Inl (missing_argument ''query'')
           | Some query \<Rightarrow>
               Inr \<lparr>success = True,
                    output = PDict
                      [(''query'', query),
                       (''results'', PList [PDict
                          [(''title'', PStr (''Result 1 for '' @ [CHR 0x27] @ py_format rt query @ [CHR 0x27])),
                           (''snippet'', PStr ''This is a simulated search result.''),
                           (''url'', PStr ''https://example.com/result1'')]]),
                       (''timestamp'', PStr (now_isoformat rt))],
                    error = None\<rparr>))"

text \<open>A tool object: its two attributes and its bound \<^verbatim>\<open>execute\<close> method.\<close>

record Tool =
  name :: string
  description :: string
  execute :: "kwargs \<Rightarrow> py_exception + ToolResult"

definition KnowledgeBaseTool :: "retrieve_fn \<Rightarrow> Tool" where
  "KnowledgeBaseTool rag_retrieve =
     \<lparr>name = ''knowledge_base_search'',
      description = ''Search the knowledge base for relevant information'',
      execute = KnowledgeBaseTool_execute rag_retrieve\<rparr>"

definition CalculatorTool :: "runtime \<Rightarrow> Tool" where
  "CalculatorTool rt =
     \<lparr>name = ''calculator'',
      description = ''Perform mathematical calculations'',
      execute = CalculatorTool_execute rt\<rparr>"

definition WebSearchTool :: "runtime \<Rightarrow> Tool" where
  "WebSearchTool rt =
     \<lparr>name = ''web_search'',
      description = ''Search the web for information'',
      execute = WebSearchTool_execute rt\<rparr>"

record ToolRegistry =
  tools :: "(string \<times> Tool) list"

definition register :: "Tool \<Rightarrow> ToolRegistry \<Rightarrow> ToolRegistry" where
  "register tool reg = reg\<lparr>tools := dict_set (name tool) tool (tools reg)\<rparr>"

definition register_default_tools :: "runtime \<Rightarrow> retrieve_fn option \<Rightarrow> ToolRegistry \<Rightarrow> ToolRegistry" where
  "register_default_tools rt rag_pipeline reg =
     register (WebSearchTool rt)
       (register (CalculatorTool rt)
          (case rag_pipeline of
             Some rag_retrieve \<Rightarrow> register (KnowledgeBaseTool rag_retrieve) reg
           | None \<Rightarrow> reg))"

definition ToolRegistry_init :: "runtime \<Rightarrow> retrieve_fn option \<Rightarrow> ToolRegistry" where
  "ToolRegistry_init rt rag_pipeline = register_default_tools rt rag_pipeline \<lparr>tools = []\<rparr>"

definition tool_not_found :: "string \<Rightarrow> ToolResult" where
  "tool_not_found shown =
     \<lparr>success = False, output = PNone,
      error = Some (''Tool '' @ [CHR 0x27] @ shown @ [CHR 0x27] @ '' not found'')\<rparr>"

text \<open>
  \<^verbatim>\<open>execute_tool(self, tool_name, **kwargs)\<close>. The name is used as a dict key: a list or
  a dict is unhashable and the membership test raises; any other value that is not a
  string is hashable and equal to no key of the registry.
\<close>

fun execute_tool :: "runtime \<Rightarrow> ToolRegistry \<Rightarrow> pyval \<Rightarrow> kwargs \<Rightarrow> py_exception + ToolResult" where
  "execute_tool rt reg (PStr tool_name) kw =
     (case map_of (tools reg) tool_name of
        None \<Rightarrow> Inr (tool_not_found tool_name)
      | Some tool \<Rightarrow> execute tool kw)"
| "execute_tool rt reg (PList xs) kw = Inl (Exn TypeError ''unhashable type: list'')"
| "execute_tool rt reg (PDict kvs) kw = Inl (Exn TypeError ''unhashable type: dict'')"
| "execute_tool rt reg v kw = Inr (tool_not_found (py_format rt v))"

fun tool_line :: "string \<times> Tool \<Rightarrow> string" where
  "tool_line (n, tool) = ''- '' @ n @ '': '' @ description tool"

fun str_join :: "string \<Rightarrow> string list \<Rightarrow> string" where
  "str_join sep [] = []"
| "str_join sep [x] = x"
| "str_join sep (x # y # ys) = x @ sep @ str_join sep (y # ys)"

definition get_tool_descriptions :: "ToolRegistry \<Rightarrow> string" where
  "get_tool_descriptions reg = str_join [CHR 0x0A] (map tool_line (tools reg))"

definition list_tools :: "ToolRegistry \<Rightarrow> string list" where
  "list_tools reg = map fst (tools reg)"

section \<open>Strings\<close>

text \<open>
  Text is a list of characters with codes below 256. The character classes are the ones
  Python's \<^verbatim>\<open>str.isspace\<close> and the patterns \<^verbatim>\<open>\s\<close> and \<^verbatim>\<open>\w\<close> of \<^verbatim>\<open>re\<close> have on
  these codes.
\<close>

definition py_isspace :: "char \<Rightarrow> bool" where
  "py_isspace c =
     (let n = (of_char c :: nat)
      in (9 \<le> n \<and> n \<le> 13) \<or> (28 \<le> n \<and> n \<le> 32) \<or> n = 133 \<or> n = 160)"

definition re_word_char :: "char \<Rightarrow> bool" where
  "re_word_char c =
     (let n = (of_char c :: nat)
      in (48 \<le> n \<and> n \<le> 57) \<or> (65 \<le> n \<and> n \<le> 90) \<or> n = 95 \<or> (97 \<le> n \<and> n \<le> 122)
         \<or> n = 170 \<or> n = 178 \<or> n = 179 \<or> n = 181 \<or> n = 185 \<or> n = 186
         \<or> (188 \<le> n \<and> n \<le> 190) \<or> (192 \<le> n \<and> n \<le> 214)
         \<or> (216 \<le> n \<and> n \<le> 246) \<or> 248 \<le> n)"

text \<open>\<^verbatim>\<open>s.strip()\<close>.\<close>

definition py_strip :: "string \<Rightarrow> string" where
  "py_strip s = rev (dropWhile py_isspace (rev (dropWhile py_isspace s)))"

text \<open>
  \<^verbatim>\<open>s.split()\<close>: the maximal runs of characters that are not whitespace. The first
  argument is the word being read, reversed.
\<close>

fun split_ws :: "string \<Rightarrow> string \<Rightarrow> string list" where
  "split_ws acc [] = (if acc = [] then [] else [rev acc])"
| "split_ws acc (c # cs) =
     (if py_isspace c
      then (if acc = [] then split_ws [] cs else rev acc # split_ws [] cs)
      else split_ws (c # acc) cs)"

definition py_split :: "string \<Rightarrow> string list" where
  "py_split s = split_ws [] s"

text \<open>
  \<^verbatim>\<open>s.split('\n\n')\<close>: the pieces between the occurrences of two line feeds, found from
  the left without overlap; a string without the separator is one piece, also when
  empty.
\<close>

fun split_paragraphs :: "string \<Rightarrow> string \<Rightarrow> string list" where
  "split_paragraphs acc (c # d # cs) =
     (if c = CHR 0x0A \<and> d = CHR 0x0A
      then rev acc # split_paragraphs [] cs
      else split_paragraphs (c # acc) (d # cs))"
| "split_paragraphs acc [c] = [rev (c # acc)]"
| "split_paragraphs acc [] = [rev acc]"

text \<open>\<^verbatim>\<open>xs[s:]\<close> for an integer \<^verbatim>\<open>s\<close>: a negative start counts from the end.\<close>

definition slice_from :: "int \<Rightarrow> 'a list \<Rightarrow> 'a list" where
  "slice_from s xs =
     (if s < 0 then drop (nat (int (length xs) + s)) xs else drop (nat s) xs)"

text \<open>\<^verbatim>\<open>xs[i:j]\<close>: both bounds are clipped to the list, negative ones count from the end.\<close>

definition slice_index :: "int \<Rightarrow> nat \<Rightarrow> nat" where
  "slice_index i n = (if i < 0 then nat (int n + i) else min (nat i) n)"

definition py_slice :: "int \<Rightarrow> int \<Rightarrow> 'a list \<Rightarrow> 'a list" where
  "py_slice i j xs =
     (let a = slice_index i (length xs); b = slice_index j (length xs)
      in take (b - a) (drop a xs))"

fun startswith :: "string \<Rightarrow> string \<Rightarrow> bool" where
  "startswith s [] = True"
| "startswith [] (p # ps) = False"
| "startswith (c # cs) (p # ps) = (c = p \<and> startswith cs ps)"

text \<open>\<^verbatim>\<open>sub in s\<close>.\<close>

fun str_contains :: "string \<Rightarrow> string \<Rightarrow> bool" where
  "str_contains [] sub = (sub = [])"
| "str_contains (c # cs) sub = (startswith (c # cs) sub \<or> str_contains cs sub)"

text \<open>\<^verbatim>\<open>s.find(sub)\<close> and \<^verbatim>\<open>s.rfind(sub)\<close>, counting from the offset given; -1 if absent.\<close>

fun find_from :: "int \<Rightarrow> string \<Rightarrow> string \<Rightarrow> int" where
  "find_from i [] sub = (if sub = [] then i else -1)"
| "find_from i (c # cs) sub =
     (if startswith (c # cs) sub then i else find_from (i + 1) cs sub)"

fun rfind_from :: "int \<Rightarrow> string \<Rightarrow> string \<Rightarrow> int" where
  "rfind_from i [] sub = (if sub = [] then i else -1)"
| "rfind_from i (c # cs) sub =
     (let later = rfind_from (i + 1) cs sub
      in if 0 \<le> later then later
         else if startswith (c # cs) sub then i else -1)"

definition str_find :: "string \<Rightarrow> string \<Rightarrow> int" where
  "str_find s sub = find_from 0 s sub"

definition str_rfind :: "string \<Rightarrow> string \<Rightarrow> int" where
  "str_rfind s sub = rfind_from 0 s sub"

text \<open>\<^verbatim>\<open>s.upper()\<close> on the letters a to z, the only ones a role name has.\<close>

definition upper_char :: "char \<Rightarrow> char" where
  "upper_char c =
     (let n = (of_char c :: nat) in if 97 \<le> n \<and> n \<le> 122 then char_of (n - 32) else c)"

definition py_upper :: "string \<Rightarrow> string" where
  "py_upper s = map upper_char s"

text \<open>\<^verbatim>\<open>str(n)\<close> of a natural number, in decimal.\<close>

definition digit_char :: "nat \<Rightarrow> char" where
  "digit_char d = ''0123456789'' ! d"

fun str_nat :: "nat \<Rightarrow> string" where
  "str_nat n =
     (if n < 10 then [digit_char n]
      else str_nat (n div 10) @ [digit_char (n mod 10)])"

declare str_nat.simps [simp del]

section \<open>Chunking (src/rag/document_processor.py)\<close>

record DocumentChunker =
  chunk_size :: int
  chunk_overlap :: int

text \<open>\<^verbatim>\<open>__init__\<close> stores its two arguments; it checks nothing.\<close>

definition DocumentChunker_init :: "int \<Rightarrow> int \<Rightarrow> DocumentChunker" where
  "DocumentChunker_init csize coverlap = \<lparr>chunk_size = csize, chunk_overlap = coverlap\<rparr>"

text \<open>
  \<^verbatim>\<open>re.sub(r'\s+', ' ', text)\<close>: every maximal run of whitespace becomes one space. The
  flag says that the previous character was whitespace.
\<close>

fun collapse_whitespace :: "bool \<Rightarrow> string \<Rightarrow> string" where
  "collapse_whitespace in_run [] = []"
| "collapse_whitespace in_run (c # cs) =
     (if py_isspace c
      then (if in_run then collapse_whitespace True cs
            else CHR '' '' # collapse_whitespace True cs)
      else c # collapse_whitespace False cs)"

text \<open>The characters that \<^verbatim>\<open>[^\w\s\.\,\!\?\-\:\;]\<close> does not match, so that are kept.\<close>

definition kept_char :: "char \<Rightarrow> bool" where
  "kept_char c = (re_word_char c \<or> py_isspace c \<or> c \<in> set ''.,!?-:;'')"

definition clean_text :: "string \<Rightarrow> string" where
  "clean_text text = py_strip (filter kept_char (collapse_whitespace False text))"

text \<open>The loop of \<^verbatim>\<open>_semantic_split\<close> over the paragraphs; its state is
  \<^verbatim>\<open>(chunks, current_chunk)\<close>.\<close>

fun semantic_loop :: "int \<Rightarrow> string list \<Rightarrow> string list \<times> string \<Rightarrow> string list \<times> string" where
  "semantic_loop csize [] (chunks, current_chunk) = (chunks, current_chunk)"
| "semantic_loop csize (para # paras) (chunks, current_chunk) =
     (if int (length current_chunk) + int (length para) < csize
      then semantic_loop csize paras (chunks, current_chunk @ '' '' @ para)
      else semantic_loop csize paras
             (if current_chunk \<noteq> [] then chunks @ [py_strip current_chunk] else chunks, para))"

definition semantic_split :: "DocumentChunker \<Rightarrow> string \<Rightarrow> string list" where
  "semantic_split self text =
     (case semantic_loop (chunk_size self) (split_paragraphs [] text) ([], []) of
        (chunks, current_chunk) \<Rightarrow>
          if current_chunk \<noteq> [] then chunks @ [py_strip current_chunk] else chunks)"

text \<open>The inner loop of \<^verbatim>\<open>_size_split\<close> over the words of one chunk; its state is
  \<^verbatim>\<open>(sub_chunks, current)\<close>.\<close>

fun window_loop :: "DocumentChunker \<Rightarrow> string list \<Rightarrow> string list \<times> string list \<Rightarrow> string list \<times> string list" where
  "window_loop self [] (sub_chunks, current) = (sub_chunks, current)"
| "window_loop self (word # ws) (sub_chunks, current) =
     (if chunk_size self \<le> int (length (current @ [word]))
      then window_loop self ws
             (sub_chunks @ [str_join '' '' (current @ [word])],
              slice_from (- chunk_overlap self) (current @ [word]))
      else window_loop self ws (sub_chunks, current @ [word]))"

definition split_chunk :: "DocumentChunker \<Rightarrow> string \<Rightarrow> string list" where
  "split_chunk self chunk =
     (let ws = py_split chunk
      in if int (length ws) \<le> chunk_size self then [chunk]
         else (case window_loop self ws ([], []) of
                 (sub_chunks, current) \<Rightarrow>
                   if current \<noteq> [] then sub_chunks @ [str_join '' '' current] else sub_chunks))"

definition size_split :: "DocumentChunker \<Rightarrow> string list \<Rightarrow> string list" where
  "size_split self chunks = concat (map (split_chunk self) chunks)"

text \<open>The dict built for the \<^verbatim>\<open>i\<close>-th chunk; \<^verbatim>\<open>metadata or {}\<close> is the empty dict for
  \<^verbatim>\<open>None\<close>.\<close>

fun chunk_dict :: "pydict option \<Rightarrow> nat \<times> string \<Rightarrow> pydict" where
  "chunk_dict metadata (i, chunk) =
     [(''content'', PStr chunk),
      (''chunk_id'', PInt (int i)),
      (''metadata'', PDict (case metadata of None \<Rightarrow> [] | Some m \<Rightarrow> m)),
      (''length'', PInt (int (length (py_split chunk))))]"

definition chunk_text :: "DocumentChunker \<Rightarrow> string \<Rightarrow> pydict option \<Rightarrow> pydict list" where
  "chunk_text self text metadata =
     (let chunks = size_split self (semantic_split self (clean_text text))
      in map (chunk_dict metadata) (enumerate 0 chunks))"

section \<open>Vector database and retrieval (src/rag/embeddings.py, src/rag/pipeline.py)\<close>

text \<open>
  The Chroma collection and the embedding model are libraries: the collection is a state
  of any type with the operations the program calls on it, the model is its
  \<^verbatim>\<open>encode\<close>. What \<^verbatim>\<open>collection.query\<close> returns is a dict of three entries, each
  \<^verbatim>\<open>None\<close> or a list with one list per query vector.
\<close>

record query_results =
  documents :: "pyval list list option"
  distances :: "real list list option"
  metadatas :: "pyval list list option"

record 'c collection_api =
  coll_add :: "'c \<Rightarrow> string list \<Rightarrow> real list list \<Rightarrow> pyval list \<Rightarrow> pyval list \<Rightarrow> py_exception + 'c"
  coll_query :: "'c \<Rightarrow> real list list \<Rightarrow> pyval \<Rightarrow> py_exception + query_results"
  coll_delete :: "'c \<Rightarrow> 'c"
  coll_count :: "'c \<Rightarrow> nat"

record EmbeddingManager =
  model_name :: string
  encode :: "pyval list \<Rightarrow> py_exception + real list list"

definition embed_texts :: "EmbeddingManager \<Rightarrow> pyval list \<Rightarrow> py_exception + real list list" where
  "embed_texts self texts = encode self texts"

definition embed_single :: "EmbeddingManager \<Rightarrow> pyval \<Rightarrow> py_exception + real list" where
  "embed_single self text =
     (case embed_texts self [text] of
        Inl e \<Rightarrow> Inl e
      | Inr [] \<Rightarrow> Inl (Exn IndexError ''index 0 is out of bounds'')
      | Inr (row # _) \<Rightarrow> Inr row)"

record 'c VectorDatabase =
  db_path :: string
  collection_name :: string
  collection :: 'c

text \<open>\<^verbatim>\<open>[doc["content"] for doc in documents]\<close>: the first document without the key raises.\<close>

fun contents_of :: "pydict list \<Rightarrow> py_exception + pyval list" where
  "contents_of [] = Inr []"
| "contents_of (doc # docs) =
     (case py_getitem (PDict doc) ''content'' of
        Inl e \<Rightarrow> Inl e
      | Inr text \<Rightarrow>
          (case contents_of docs of
             Inl e \<Rightarrow> Inl e
           | Inr texts \<Rightarrow> Inr (text # texts)))"

text \<open>\<^verbatim>\<open>[f"doc_{i}" for i in range(len(documents))]\<close>.\<close>

definition document_ids :: "nat \<Rightarrow> string list" where
  "document_ids n = map (\<lambda>i. ''doc_'' @ str_nat i) [0..<n]"

definition add_documents ::
  "'c collection_api \<Rightarrow> 'c VectorDatabase \<Rightarrow> pydict list \<Rightarrow> real list list \<Rightarrow> py_exception + 'c VectorDatabase" where
  "add_documents api self docs embeddings =
     (if length docs \<noteq> length embeddings
      then Inl (Exn ValueError ''Number of documents must match number of embeddings'')
      else
        (let ids = document_ids (length docs);
             mds = map (\<lambda>doc. dict_get doc ''metadata'' (PDict [])) docs
         in case contents_of docs of
              Inl e \<Rightarrow> Inl e
            | Inr documents_text \<Rightarrow>
                (case coll_add api (collection self) ids embeddings documents_text mds of
                   Inl e \<Rightarrow> Inl e
                 | Inr c \<Rightarrow> Inr (self\<lparr>collection := c\<rparr>))))"

text \<open>\<^verbatim>\<open>xs[i]\<close> for an index that is not negative.\<close>

definition py_index :: "'a list \<Rightarrow> nat \<Rightarrow> py_exception + 'a" where
  "py_index xs i = (if i < length xs then Inr (xs ! i) else Inl (Exn IndexError ''list index out of range''))"

text \<open>\<^verbatim>\<open>results['distances'][0][i] if results['distances'] else 0\<close>, then \<^verbatim>\<open>float\<close>.\<close>

definition score_at :: "query_results \<Rightarrow> nat \<Rightarrow> py_exception + real" where
  "score_at results i =
     (case distances results of
        None \<Rightarrow> Inr 0
      | Some [] \<Rightarrow> Inr 0
      | Some (row # _) \<Rightarrow> py_index row i)"

text \<open>\<^verbatim>\<open>results['metadatas'][0][i] if results['metadatas'] else {}\<close>.\<close>

definition metadata_at :: "query_results \<Rightarrow> nat \<Rightarrow> py_exception + pyval" where
  "metadata_at results i =
     (case metadatas results of
        None \<Rightarrow> Inr (PDict [])
      | Some [] \<Rightarrow> Inr (PDict [])
      | Some (row # _) \<Rightarrow> py_index row i)"

fun collect_hits :: "query_results \<Rightarrow> (nat \<times> pyval) list \<Rightarrow> py_exception + pyval list" where
  "collect_hits results [] = Inr []"
| "collect_hits results ((i, doc) # rest) =
     (case score_at results i of
        Inl e \<Rightarrow> Inl e
      | Inr score \<Rightarrow>
          (case metadata_at results i of
             Inl e \<Rightarrow> Inl e
           | Inr md \<Rightarrow>
               (case collect_hits results rest of
                  Inl e \<Rightarrow> Inl e
                | Inr hits \<Rightarrow>
                    Inr (PDict [(''content'', doc), (''score'', PFloat score), (''metadata'', md)]
                         # hits))))"

text \<open>
  \<^verbatim>\<open>search\<close> hands \<^verbatim>\<open>top_k\<close> to the collection as it is. The loop runs only when
  \<^verbatim>\<open>results['documents'] and results['documents'][0]\<close> is true.
\<close>

definition search ::
  "'c collection_api \<Rightarrow> 'c VectorDatabase \<Rightarrow> real list \<Rightarrow> pyval \<Rightarrow> py_exception + pyval list" where
  "search api self query_embedding top_k =
     (case coll_query api (collection self) [query_embedding] top_k of
        Inl e \<Rightarrow> Inl e
      | Inr results \<Rightarrow>
          (case documents results of
             None \<Rightarrow> Inr []
           | Some [] \<Rightarrow> Inr []
           | Some (row # _) \<Rightarrow> collect_hits results (enumerate 0 row)))"

definition delete_all :: "'c collection_api \<Rightarrow> 'c VectorDatabase \<Rightarrow> 'c VectorDatabase" where
  "delete_all api self = self\<lparr>collection := coll_delete api (collection self)\<rparr>"

definition count_documents :: "'c collection_api \<Rightarrow> 'c VectorDatabase \<Rightarrow> nat" where
  "count_documents api self = coll_count api (collection self)"

record 'c RAGPipeline =
  embedding_manager :: EmbeddingManager
  vector_db :: "'c VectorDatabase"
  document_chunker :: DocumentChunker

definition retrieve ::
  "'c collection_api \<Rightarrow> 'c RAGPipeline \<Rightarrow> pyval \<Rightarrow> pyval \<Rightarrow> py_exception + pyval list" where
  "retrieve api self q top_k =
     (case embed_single (embedding_manager self) q of
        Inl e \<Rightarrow> Inl e
      | Inr query_embedding \<Rightarrow> search api (vector_db self) query_embedding top_k)"

section \<open>The agent (src/agent/agent.py)\<close>

datatype AgentState = IDLE | RUNNING | THINKING | TOOL_CALLING | GENERATING | COMPLETED | ERROR

record Message =
  role :: string
  content :: string
  timestamp :: string
  tool_calls :: "pyval list"

text \<open>The field \<^verbatim>\<open>tool_calls\<close> of the trace is \<open>trace_tool_calls\<close> here, the name being
  taken by the field of \<open>Message\<close>.\<close>

record ExecutionTrace =
  query :: string
  steps :: "pyval list"
  trace_tool_calls :: "pyval list"
  messages :: "Message list"
  total_tokens :: int
  execution_time :: real
  status :: string

definition ExecutionTrace_init :: "string \<Rightarrow> ExecutionTrace" where
  "ExecutionTrace_init q =
     \<lparr>query = q, steps = [], trace_tool_calls = [], messages = [],
      total_tokens = 0, execution_time = 0, status = ''pending''\<rparr>"

text \<open>
  The generation capability \<^verbatim>\<open>self.llm.invoke\<close> is a parameter with a state of its own
  (\<open>'l\<close>), so that its answers may depend on everything it has been asked before; what
  it returns is the \<^verbatim>\<open>content\<close> of the response, or the exception it raised.
\<close>

record 'l AIAgent =
  agent_name :: string
  max_iterations :: int
  llm :: "'l \<Rightarrow> string \<Rightarrow> (py_exception + string) \<times> 'l"
  tool_registry :: ToolRegistry
  state :: AgentState
  conversation_history :: "Message list"
  current_trace :: "ExecutionTrace option"
  system_prompt :: string

definition build_system_prompt :: "string \<Rightarrow> ToolRegistry \<Rightarrow> string" where
  \<open>build_system_prompt nm reg =
     ''You are a helpful AI assistant called '' @ nm @ ''.'' @ [CHR 0x0A]
     @ ''You have access to the following tools:'' @ [CHR 0x0A, CHR 0x0A]
     @ get_tool_descriptions reg @ [CHR 0x0A, CHR 0x0A]
     @ ''When you need to use a tool, respond with a JSON object like this:'' @ [CHR 0x0A]
     @ ''{"tool": "tool_name", "args": {"arg1": "value1", "arg2": "value2"}}''
     @ [CHR 0x0A, CHR 0x0A]
     @ ''Always be helpful, accurate, and honest. If you don't know something, say so.''\<close>

definition AIAgent_init ::
  "string \<Rightarrow> ('l \<Rightarrow> string \<Rightarrow> (py_exception + string) \<times> 'l) \<Rightarrow> ToolRegistry \<Rightarrow> int \<Rightarrow> 'l AIAgent" where
  "AIAgent_init nm model reg budget =
     \<lparr>agent_name = nm, max_iterations = budget, llm = model, tool_registry = reg,
      state = IDLE, conversation_history = [], current_trace = None,
      system_prompt = build_system_prompt nm reg\<rparr>"

definition should_use_tool :: "string \<Rightarrow> bool" where
  "should_use_tool response = (str_contains response ''{'' \<and> str_contains response ''tool'')"

text \<open>
  \<^verbatim>\<open>_parse_tool_call\<close>: whatever \<^verbatim>\<open>json.loads\<close> raises is caught by the bare
  \<^verbatim>\<open>except\<close>, and \<^verbatim>\<open>None\<close> is returned. Nothing checks what kind of value was decoded.
\<close>

definition parse_tool_call :: "runtime \<Rightarrow> string \<Rightarrow> pyval option" where
  "parse_tool_call rt response =
     (if str_contains response ''{'' \<and> str_contains response ''tool''
      then
        (let start = str_find response ''{'';
             end = str_rfind response ''}'' + 1;
             json_str = py_slice start end response
         in case json_loads rt json_str of
              Inl e \<Rightarrow> None
            | Inr v \<Rightarrow> Some v)
      else None)"

text \<open>\<^verbatim>\<open>v.get(key, default)\<close>: a method of dicts only.\<close>

fun py_get :: "pyval \<Rightarrow> string \<Rightarrow> pyval \<Rightarrow> py_exception + pyval" where
  "py_get (PDict kvs) k d = Inr (dict_get kvs k d)"
| "py_get v k d = Inl (Exn AttributeError ''object has no attribute get'')"

text \<open>
  \<^verbatim>\<open>execute_tool(name, **args)\<close> at the call: the value after \<^verbatim>\<open>**\<close> has to be a
  mapping, and none of its keys may name a parameter that is already bound.
\<close>

fun unpack_kwargs :: "pyval \<Rightarrow> py_exception + kwargs" where
  "unpack_kwargs (PDict kvs) =
     (if ''self'' \<in> fst ` set kvs \<or> ''tool_name'' \<in> fst ` set kvs
      then Inl (Exn TypeError ''execute_tool() got multiple values for argument'')
      else Inr kvs)"
| "unpack_kwargs v = Inl (Exn TypeError ''argument after ** must be a mapping'')"

text \<open>
  \<^verbatim>\<open>dataclasses.asdict\<close> raises TypeError unless its argument is an instance of a
  dataclass. \<^verbatim>\<open>Message\<close> and \<^verbatim>\<open>ExecutionTrace\<close> are declared with \<^verbatim>\<open>@dataclass\<close>
  (agent.py); \<^verbatim>\<open>ToolResult\<close> is declared as a pydantic \<^verbatim>\<open>BaseModel\<close> (tools.py), which
  is no dataclass.
\<close>

datatype class_kind = Dataclass | BaseModel

definition ToolResult_kind :: class_kind where
  "ToolResult_kind = BaseModel"

definition ExecutionTrace_kind :: class_kind where
  "ExecutionTrace_kind = Dataclass"

definition asdict :: "class_kind \<Rightarrow> 'a \<Rightarrow> py_exception + 'a" where
  "asdict kind d =
     (if kind = Dataclass then Inr d
      else Inl (Exn TypeError ''asdict() should be called on dataclass instances''))"

definition ToolResult_fields :: "ToolResult \<Rightarrow> pyval" where
  "ToolResult_fields r =
     PDict [(''success'', PBool (success r)),
            (''output'', output r),
            (''error'', (case error r of None \<Rightarrow> PNone | Some m \<Rightarrow> PStr m))]"

definition format_message :: "Message \<Rightarrow> string" where
  "format_message msg = py_upper (role msg) @ '': '' @ content msg @ [CHR 0x0A]"

definition format_conversation_history :: "'l AIAgent \<Rightarrow> string" where
  "format_conversation_history self =
     system_prompt self @ [CHR 0x0A, CHR 0x0A]
     @ concat (map format_message (conversation_history self))
     @ ''ASSISTANT: ''"

definition trace_append_tool_call :: "pyval \<Rightarrow> ExecutionTrace \<Rightarrow> ExecutionTrace" where
  "trace_append_tool_call r t = t\<lparr>trace_tool_calls := trace_tool_calls t @ [r]\<rparr>"

text \<open>
  Lines 166 to 194 of \<^verbatim>\<open>execute_query\<close>: the iteration once \<^verbatim>\<open>tool_call\<close> is true.
  Each step that can raise ends the call with its exception; the agent is returned as
  the exception leaves it.
\<close>

definition handle_tool_call ::
  "runtime \<Rightarrow> 'l AIAgent \<Rightarrow> int \<Rightarrow> string \<Rightarrow> pyval \<Rightarrow> (py_exception + unit) \<times> 'l AIAgent" where
  "handle_tool_call rt self iteration response_text tool_call =
     (case py_getitem tool_call ''tool'' of
        Inl e \<Rightarrow> (Inl e, self)
      | Inr tool \<Rightarrow>
     (case py_get tool_call ''args'' (PDict []) of
        Inl e \<Rightarrow> (Inl e, self)
      | Inr args \<Rightarrow>
     (case unpack_kwargs args of
        Inl e \<Rightarrow> (Inl e, self)
      | Inr kw \<Rightarrow>
     (case execute_tool rt (tool_registry self) tool kw of
        Inl e \<Rightarrow> (Inl e, self)
      | Inr tool_result \<Rightarrow>
     (case asdict ToolResult_kind (ToolResult_fields tool_result) of
        Inl e \<Rightarrow> (Inl e, self)
      | Inr result \<Rightarrow>
          (let tool_call_record =
                 PDict [(''iteration'', PInt iteration), (''tool'', tool),
                        (''args'', args), (''result'', result)];
               self1 = self\<lparr>current_trace :=
                              map_option (trace_append_tool_call tool_call_record)
                                (current_trace self)\<rparr>;
               assistant_msg =
                 \<lparr>role = ''assistant'', content = response_text,
                  timestamp = now_isoformat rt, tool_calls = [tool_call]\<rparr>;
               self2 = self1\<lparr>conversation_history :=
                               conversation_history self1 @ [assistant_msg]\<rparr>
           in case json_dumps rt (output tool_result) of
                Inl e \<Rightarrow> (Inl e, self2)
              | Inr dumped \<Rightarrow>
                  (let tool_response =
                         ''Tool executed: '' @ py_format rt tool @ [CHR 0x0A]
                         @ ''Result: '' @ dumped;
                       tool_msg =
                         \<lparr>role = ''system'', content = tool_response,
                          timestamp = now_isoformat rt, tool_calls = []\<rparr>
                   in (Inr (),
                       self2\<lparr>conversation_history :=
                               conversation_history self2 @ [tool_msg]\<rparr>))))))))"

lemma handle_tool_call_max_iterations:
  "handle_tool_call rt self iteration response_text tool_call = (r, self') \<Longrightarrow>
   max_iterations self' = max_iterations self"
  by (auto simp: handle_tool_call_def Let_def split: sum.splits)

text \<open>Lines 196 to 201: the response is the final one.\<close>

definition final_answer :: "runtime \<Rightarrow> 'l AIAgent \<Rightarrow> string \<Rightarrow> 'l AIAgent" where
  "final_answer rt self response_text =
     self\<lparr>conversation_history :=
            conversation_history self
            @ [\<lparr>role = ''assistant'', content = response_text,
                timestamp = now_isoformat rt, tool_calls = []\<rparr>],
          state := COMPLETED\<rparr>"

text \<open>
  The \<^verbatim>\<open>while\<close> loop of \<^verbatim>\<open>execute_query\<close>, entered with the agent, the state of the
  generation capability and \<^verbatim>\<open>iteration\<close>. It returns \<^verbatim>\<open>(final_response, iteration)\<close>
  as they are after the loop, or the exception that left it.
\<close>

function agent_loop ::
  "runtime \<Rightarrow> 'l AIAgent \<Rightarrow> 'l \<Rightarrow> int
   \<Rightarrow> (py_exception + string option \<times> int) \<times> 'l AIAgent \<times> 'l" where
  "agent_loop rt self l iteration =
     (if iteration < max_iterations self
      then
        (let iteration1 = iteration + 1;
             messages_str = format_conversation_history (self\<lparr>state := THINKING\<rparr>);
             self1 = self\<lparr>state := GENERATING\<rparr>
         in case llm self1 l messages_str of
              (Inl e, l1) \<Rightarrow> (Inl e, self1, l1)
            | (Inr response_text, l1) \<Rightarrow>
                if should_use_tool response_text
                then
                  (let self2 = self1\<lparr>state := TOOL_CALLING\<rparr>
                   in case parse_tool_call rt response_text of
                        None \<Rightarrow>
                          (Inr (Some response_text, iteration1),
                           final_answer rt self2 response_text, l1)
                      | Some tool_call \<Rightarrow>
                          if py_truthy tool_call
                          then
                            (case handle_tool_call rt self2 iteration1 response_text tool_call of
                               (Inl e, self3) \<Rightarrow> (Inl e, self3, l1)
                             | (Inr u, self3) \<Rightarrow> agent_loop rt self3 l1 iteration1)
                          else
                            (Inr (Some response_text, iteration1),
                             final_answer rt self2 response_text, l1))
                else
                  (Inr (Some response_text, iteration1),
                   final_answer rt self1 response_text, l1))
      else (Inr (None, iteration), self, l))"
  by pat_completeness auto
termination
  by (relation "measure (\<lambda>(rt, self, l, iteration). nat (max_iterations self - iteration))")
     (auto dest: handle_tool_call_max_iterations [OF sym])

declare agent_loop.simps [simp del]

text \<open>The dict that \<^verbatim>\<open>execute_query\<close> returns; its keys \<^verbatim>\<open>query\<close> and \<^verbatim>\<open>success\<close> are
  \<open>res_query\<close> and \<open>res_success\<close> here.\<close>

record AgentResponse =
  res_query :: string
  response :: string
  trace :: ExecutionTrace
  iterations :: int
  res_success :: bool

text \<open>Lines 127 to 134: the state with which the loop is entered.\<close>

definition begin_query :: "runtime \<Rightarrow> 'l AIAgent \<Rightarrow> string \<Rightarrow> 'l AIAgent" where
  "begin_query rt self q =
     (let user_msg = \<lparr>role = ''user'', content = q, timestamp = now_isoformat rt, tool_calls = []\<rparr>
      in self\<lparr>state := RUNNING,
              current_trace := Some ((ExecutionTrace_init q)\<lparr>messages := [user_msg]\<rparr>),
              conversation_history := [user_msg]\<rparr>)"

text \<open>\<^verbatim>\<open>if final_response\<close>: neither \<^verbatim>\<open>None\<close> nor the empty string.\<close>

fun response_truthy :: "string option \<Rightarrow> bool" where
  "response_truthy None = False"
| "response_truthy (Some r) = (r \<noteq> [])"

text \<open>
  \<^verbatim>\<open>execute_query(self, query, verbose)\<close>. The flag \<^verbatim>\<open>verbose\<close> only prints, and what it
  prints is evaluated again right after, so it is left out. The result is the returned
  dict or the exception, with the agent and the state of the generation capability as
  the call leaves them.
\<close>

definition execute_query ::
  "runtime \<Rightarrow> 'l AIAgent \<Rightarrow> 'l \<Rightarrow> string \<Rightarrow> (py_exception + AgentResponse) \<times> 'l AIAgent \<times> 'l" where
  "execute_query rt self l q =
     (case agent_loop rt (begin_query rt self q) l 0 of
        (Inl e, self1, l1) \<Rightarrow> (Inl e, self1, l1)
      | (Inr (final_response, iteration), self1, l1) \<Rightarrow>
          (let self2 = self1\<lparr>current_trace :=
                 map_option
                   (\<lambda>t. t\<lparr>status := (if response_truthy final_response then ''completed'' else ''error''),
                           execution_time := elapsed_seconds rt\<rparr>)
                   (current_trace self1)\<rparr>
           in case current_trace self2 of
                None \<Rightarrow> (Inl (Exn AttributeError ''NoneType object has no attribute status''), self1, l1)
              | Some t \<Rightarrow>
                  (case asdict ExecutionTrace_kind t of
                     Inl e \<Rightarrow> (Inl e, self2, l1)
                   | Inr trace_dict \<Rightarrow>
                       (Inr \<lparr>res_query = q,
                             response = (case final_response of
                                           None \<Rightarrow> ''Failed to generate response''
                                         | Some r \<Rightarrow> if r \<noteq> [] then r
                                                     else ''Failed to generate response''),
                             trace = trace_dict,
                             iterations = iteration,
                             res_success = (final_response \<noteq> None)\<rparr>,
                        self2, l1))))"

section \<open>Stand-ins for the libraries, for evaluation on concrete inputs\<close>

text \<open>
  A decoder that knows the two JSON texts used below and raises on every other text, as
  \<^verbatim>\<open>json.loads\<close> raises \<^verbatim>\<open>JSONDecodeError\<close> (a \<^verbatim>\<open>ValueError\<close>) on text that is not JSON.
\<close>

definition calculator_call_text :: string where
  \<open>calculator_call_text = ''{"tool": "calculator", "args": {"expression": "2 + 2"}}''\<close>

definition calculator_call :: pyval where
  "calculator_call =
     PDict [(''tool'', PStr ''calculator''), (''args'', PDict [(''expression'', PStr ''2 + 2'')])]"

definition tools_object_text :: string where
  \<open>tools_object_text = ''{"tools": 1}''\<close>

definition tools_object :: pyval where
  "tools_object = PDict [(''tools'', PInt 1)]"

definition truncated_call_text :: string where
  \<open>truncated_call_text = ''{"tool": "calc''\<close>

definition sample_loads :: "string \<Rightarrow> py_exception + pyval" where
  "sample_loads s =
     (if s = calculator_call_text then Inr calculator_call
      else if s = tools_object_text then Inr tools_object
      else Inl (Exn ValueError ''Expecting value''))"

text \<open>
  An \<^verbatim>\<open>eval\<close> that knows three expressions: a sum, the expression of the repository's
  test of an invalid expression (a NameError), and one that finds the class of
  \<^verbatim>\<open>exit\<close> among the subclasses of \<^verbatim>\<open>object\<close> and calls an instance of it, which raises
  \<^verbatim>\<open>SystemExit(7)\<close> although the builtins are taken away.
\<close>

definition quitter_expression :: string where
  \<open>quitter_expression =
     ''[c for c in ().__class__.__base__.__subclasses__() if c.__name__ == 'Quitter'][0]('q', 'eof')(7)''\<close>

definition undefined_name_message :: string where
  \<open>undefined_name_message = ''name 'invalid' is not defined''\<close>

definition sample_eval :: "pyval \<Rightarrow> py_exception + pyval" where
  "sample_eval v =
     (if v = PStr ''2 + 2'' then Inr (PInt 4)
      else if v = PStr ''invalid + expression''
        then Inl (Exn OtherException undefined_name_message)
      else if v = PStr quitter_expression then Inl (Exn SystemExit ''7'')
      else Inl (Exn OtherException ''invalid syntax''))"

definition sample_runtime :: runtime where
  "sample_runtime =
     \<lparr>py_str = (\<lambda>v. ''<value>''),
      py_eval = sample_eval,
      now_isoformat = ''2024-01-01T00:00:00'',
      elapsed_seconds = 0,
      json_loads = sample_loads,
      json_dumps = (\<lambda>v. Inr ''<json>'')\<rparr>"

text \<open>A generation capability that always answers the same text and keeps the list of
  the prompts it was given.\<close>

definition constant_llm :: "string \<Rightarrow> string list \<Rightarrow> string \<Rightarrow> (py_exception + string) \<times> string list" where
  "constant_llm answer prompts prompt = (Inr answer, prompts @ [prompt])"

definition sample_agent :: "string \<Rightarrow> int \<Rightarrow> string list AIAgent" where
  "sample_agent answer budget =
     AIAgent_init ''GenAI Agent'' (constant_llm answer) (ToolRegistry_init sample_runtime None) budget"

text \<open>A collection that keeps what it is given in a list, in the order of arrival, and a
  query that rejects a number of results that is not positive, as Chroma's validation
  of \<^verbatim>\<open>n_results\<close> does.\<close>

type_synonym stored = "string \<times> real list \<times> pyval \<times> pyval"

fun zip4 :: "string list \<Rightarrow> real list list \<Rightarrow> pyval list \<Rightarrow> pyval list \<Rightarrow> stored list" where
  "zip4 (i # ids) (e # es) (d # ds) (m # ms) = (i, e, d, m) # zip4 ids es ds ms"
| "zip4 ids es ds ms = []"

fun positive_int :: "pyval \<Rightarrow> bool" where
  "positive_int (PInt n) = (0 < n)"
| "positive_int v = False"

fun requested :: "pyval \<Rightarrow> nat" where
  "requested (PInt n) = nat n"
| "requested v = 0"

definition list_collection :: "stored list collection_api" where
  "list_collection =
     \<lparr>coll_add = (\<lambda>c ids es ds ms. Inr (c @ zip4 ids es ds ms)),
      coll_query = (\<lambda>c qs top_k.
         if positive_int top_k
         then Inr \<lparr>documents = Some [map (\<lambda>(i, e, d, m). d) (take (requested top_k) c)],
                   distances = Some [map (\<lambda>x. 0) (take (requested top_k) c)],
                   metadatas = Some [map (\<lambda>(i, e, d, m). m) (take (requested top_k) c)]\<rparr>
         else Inl (Exn TypeError ''Number of requested results cannot be negative, or zero.'')),
      coll_delete = (\<lambda>c. []),
      coll_count = length\<rparr>"

definition sample_db :: "stored list VectorDatabase" where
  "sample_db = \<lparr>db_path = ''./data/embeddings'', collection_name = ''rag_documents'', collection = []\<rparr>"

definition sample_embedding :: EmbeddingManager where
  "sample_embedding = \<lparr>model_name = ''all-MiniLM-L6-v2'', encode = (\<lambda>texts. Inr (map (\<lambda>t. [0]) texts))\<rparr>"

definition sample_pipeline :: "stored list RAGPipeline" where
  "sample_pipeline =
     \<lparr>embedding_manager = sample_embedding, vector_db = sample_db,
      document_chunker = DocumentChunker_init 1024 200\<rparr>"

section \<open>Predicates of the statements\<close>






text \<open>A word: not empty and without whitespace.\<close>

definition is_word :: "string \<Rightarrow> bool" where
  "is_word w = (w \<noteq> [] \<and> filter py_isspace w = [])"

text \<open>The number of whitespace-delimited tokens of a chunk is at most \<^verbatim>\<open>chunk_size\<close>.\<close>

definition within_size :: "DocumentChunker \<Rightarrow> string \<Rightarrow> bool" where
  "within_size self chunk = (int (length (py_split chunk)) \<le> chunk_size self)"

text \<open>The same for a chunk dict, whose \<^verbatim>\<open>length\<close> entry is that number.\<close>

definition chunk_within_size :: "DocumentChunker \<Rightarrow> pydict \<Rightarrow> bool" where
  "chunk_within_size self d =
     (case map_of d ''content'' of
        Some (PStr c) \<Rightarrow>
          within_size self c \<and> map_of d ''length'' = Some (PInt (int (length (py_split c))))
      | _ \<Rightarrow> False)"

text \<open>The answer of the collection holds no document for the query.\<close>

definition no_documents :: "query_results \<Rightarrow> bool" where
  "no_documents results =
     (case documents results of None \<Rightarrow> True | Some [] \<Rightarrow> True | Some (row # _) \<Rightarrow> row = [])"

text \<open>The number that a string of decimal digits denotes, read after the digits \<open>acc\<close>.\<close>

fun digits_value :: "nat \<Rightarrow> string \<Rightarrow> nat" where
  "digits_value acc [] = acc"
| "digits_value acc (c # cs) = digits_value (10 * acc + (of_char c - 48)) cs"

section \<open>The tool registry\<close>

lemma default_registry_tools:
  "tools (ToolRegistry_init rt rag) =
     (case rag of
        None \<Rightarrow> [(''calculator'', CalculatorTool rt), (''web_search'', WebSearchTool rt)]
      | Some f \<Rightarrow> [(''knowledge_base_search'', KnowledgeBaseTool f),
                   (''calculator'', CalculatorTool rt), (''web_search'', WebSearchTool rt)])"
  by (simp add: ToolRegistry_init_def register_default_tools_def register_def
        CalculatorTool_def WebSearchTool_def KnowledgeBaseTool_def split: option.splits)

text \<open>
  Claim C8. For every tool name that is not a key of the registry, \<^verbatim>\<open>execute_tool\<close>
  returns a \<^verbatim>\<open>ToolResult\<close> with \<^verbatim>\<open>success=False\<close>, \<^verbatim>\<open>output=None\<close> and an error message
  that names the tool; it raises nothing, whatever the keyword arguments are.
\<close>

theorem execute_tool_unknown_name:
  "map_of (tools reg) tool_name = None \<Longrightarrow>
   execute_tool rt reg (PStr tool_name) kw =
     Inr \<lparr>success = False, output = PNone,
          error = Some (''Tool '' @ [CHR 0x27] @ tool_name @ [CHR 0x27] @ '' not found'')\<rparr>"
  by (simp add: tool_not_found_def)

theorem execute_tool_unknown_name_witness:
  "map_of (tools (ToolRegistry_init sample_runtime None)) ''does-not-exist'' = None \<and>
   execute_tool sample_runtime (ToolRegistry_init sample_runtime None) (PStr ''does-not-exist'') [] =
     Inr \<lparr>success = False, output = PNone,
          error = Some (''Tool '' @ [CHR 0x27] @ ''does-not-exist'' @ [CHR 0x27] @ '' not found'')\<rparr>"
proof -
  have h: "map_of (tools (ToolRegistry_init sample_runtime None)) ''does-not-exist'' = None"
    by (simp add: default_registry_tools)
  show ?thesis by (rule conjI [OF h execute_tool_unknown_name [OF h]])
qed













section \<open>Chunking\<close>

lemma py_isspace_space [simp]: "py_isspace CHR '' ''"
  by (simp add: py_isspace_def)

lemma semantic_split_empty:
  "semantic_split self [] = (if 0 < chunk_size self then [[]] else [])"
  by (simp add: semantic_split_def py_strip_def)

text \<open>
  Claim C3, as stated, fails: with the default sizes the empty text gives one passage,
  whose content is empty. The buffer of \<^verbatim>\<open>_semantic_split\<close> is \<^verbatim>\<open>" "\<close> after the only
  (empty) paragraph, which is true, so its stripped content is appended.
\<close>

theorem chunk_text_empty_one_passage:
  "chunk_text (DocumentChunker_init 1024 200) [] None =
     [[(''content'', PStr []), (''chunk_id'', PInt 0), (''metadata'', PDict []),
       (''length'', PInt 0)]]"
  by (simp add: chunk_text_def clean_text_def py_strip_def semantic_split_empty size_split_def
        split_chunk_def py_split_def DocumentChunker_init_def)

text \<open>
  Claim C3, amended. For the empty text \<^verbatim>\<open>chunk_text\<close> returns exactly one passage, with
  empty content, \<^verbatim>\<open>chunk_id\<close> 0 and \<^verbatim>\<open>length\<close> 0, whenever \<^verbatim>\<open>chunk_size\<close> is positive;
  it returns no passage only when \<^verbatim>\<open>chunk_size\<close> is zero or negative.
\<close>

theorem chunk_text_empty:
  "chunk_text self [] metadata =
     (if 0 < chunk_size self
      then [[(''content'', PStr []), (''chunk_id'', PInt 0),
             (''metadata'', PDict (case metadata of None \<Rightarrow> [] | Some m \<Rightarrow> m)),
             (''length'', PInt 0)]]
      else [])"
  by (simp add: chunk_text_def clean_text_def py_strip_def semantic_split_empty size_split_def
        split_chunk_def py_split_def)

theorem chunk_text_empty_witness:
  "chunk_text (DocumentChunker_init 100 20) [] (Some [(''source'', PStr ''test'')]) =
     [[(''content'', PStr []), (''chunk_id'', PInt 0),
       (''metadata'', PDict [(''source'', PStr ''test'')]), (''length'', PInt 0)]]"
  using chunk_text_empty [of "DocumentChunker_init 100 20" "Some [(''source'', PStr ''test'')]"]
  by (simp add: DocumentChunker_init_def)

subsection \<open>The window loop when the overlap is not below the size\<close>

lemma window_loop_append:
  "window_loop self (xs @ ys) st = window_loop self ys (window_loop self xs st)"
proof (induction xs arbitrary: st)
  case Nil
  then show ?case by (cases st) simp
next
  case (Cons x xs)
  then show ?case by (cases st) simp
qed

lemma window_loop_filling:
  "int (length current) + int (length ws) < chunk_size self \<Longrightarrow>
   window_loop self ws (sub_chunks, current) = (sub_chunks, current @ ws)"
  by (induction ws arbitrary: current) auto

lemma slice_from_overlap_length:
  "0 < co \<Longrightarrow> length (slice_from (- co) xs) = min (length xs) (nat co)"
  by (auto simp: slice_from_def)

lemma window_loop_emitting:
  assumes "1 \<le> chunk_size self" "chunk_size self \<le> chunk_overlap self"
    and "chunk_size self - 1 \<le> int (length current)"
  shows "length (fst (window_loop self ws (sub_chunks, current))) = length sub_chunks + length ws
         \<and> chunk_size self - 1 \<le> int (length (snd (window_loop self ws (sub_chunks, current))))
         \<and> (ws \<noteq> [] \<longrightarrow> snd (window_loop self ws (sub_chunks, current)) \<noteq> [])"
  using assms
proof (induction ws arbitrary: sub_chunks current)
  case Nil
  then show ?case by simp
next
  case (Cons w ws)
  let ?cur = "slice_from (- chunk_overlap self) (current @ [w])"
  have emit: "chunk_size self \<le> int (length (current @ [w]))"
    using Cons.prems by simp
  have len: "chunk_size self \<le> int (length ?cur)"
    using Cons.prems emit by (simp add: slice_from_overlap_length)
  have step: "window_loop self (w # ws) (sub_chunks, current) =
              window_loop self ws (sub_chunks @ [str_join '' '' (current @ [w])], ?cur)"
    using emit by simp
  have ih: "length (fst (window_loop self ws (sub_chunks @ [str_join '' '' (current @ [w])], ?cur)))
              = length (sub_chunks @ [str_join '' '' (current @ [w])]) + length ws
            \<and> chunk_size self - 1 \<le> int (length (snd (window_loop self ws
                  (sub_chunks @ [str_join '' '' (current @ [w])], ?cur))))
            \<and> (ws \<noteq> [] \<longrightarrow> snd (window_loop self ws
                  (sub_chunks @ [str_join '' '' (current @ [w])], ?cur)) \<noteq> [])"
    using Cons.IH [of ?cur] Cons.prems(1,2) len by simp
  have ne: "ws = [] \<Longrightarrow> snd (window_loop self ws
                  (sub_chunks @ [str_join '' '' (current @ [w])], ?cur)) \<noteq> []"
    using len Cons.prems(1) by auto
  show ?case unfolding step using ih ne by auto
qed

lemma split_chunk_windows:
  assumes "1 \<le> chunk_size self" "chunk_size self \<le> chunk_overlap self"
    and "chunk_size self < int (length (py_split chunk))"
  shows "int (length (split_chunk self chunk))
           = int (length (py_split chunk)) - chunk_size self + 2"
proof -
  define ws where "ws = py_split chunk"
  define k where "k = nat (chunk_size self) - 1"
  have k: "int k = chunk_size self - 1" using assms(1) by (simp add: k_def)
  have kn: "k < length ws" using assms k by (simp add: ws_def)
  have fill: "window_loop self (take k ws) ([], []) = ([], take k ws)"
    using window_loop_filling [of "[]" "take k ws" self "[]"] k kn by simp
  have split: "window_loop self ws ([], []) = window_loop self (drop k ws) ([], take k ws)"
    using window_loop_append [of self "take k ws" "drop k ws" "([], [])"] fill by simp
  have pre: "chunk_size self - 1 \<le> int (length (take k ws))" using k kn by simp
  have ne: "drop k ws \<noteq> []" using kn by simp
  obtain subs cur where res: "window_loop self ws ([], []) = (subs, cur)"
    by (cases "window_loop self ws ([], [])")
  have res': "window_loop self (drop k ws) ([], take k ws) = (subs, cur)"
    using split res by simp
  have "length subs = length ws - k" "cur \<noteq> []"
    using window_loop_emitting [OF assms(1,2) pre, of "drop k ws" "[]"] ne
    unfolding res' by simp_all
  moreover have "split_chunk self chunk = subs @ [str_join '' '' cur]"
    using assms(3) res \<open>cur \<noteq> []\<close> by (simp add: split_chunk_def ws_def Let_def)
  ultimately show ?thesis using k kn by (simp add: ws_def)
qed

text \<open>
  Claim C6, as stated, fails: a chunker with \<^verbatim>\<open>chunk_overlap = chunk_size = 2\<close> is built
  and chunks a text of five words into five passages. Nothing in \<^verbatim>\<open>__init__\<close>,
  \<^verbatim>\<open>chunk_text\<close> or \<^verbatim>\<open>_size_split\<close> compares the two numbers.
\<close>

theorem chunk_text_overlap_equal_size:
  "chunk_text (DocumentChunker_init 2 2) ''a b c d e'' None =
     [[(''content'', PStr ''a b''), (''chunk_id'', PInt 0), (''metadata'', PDict []),
       (''length'', PInt 2)],
      [(''content'', PStr ''a b c''), (''chunk_id'', PInt 1), (''metadata'', PDict []),
       (''length'', PInt 3)],
      [(''content'', PStr ''b c d''), (''chunk_id'', PInt 2), (''metadata'', PDict []),
       (''length'', PInt 3)],
      [(''content'', PStr ''c d e''), (''chunk_id'', PInt 3), (''metadata'', PDict []),
       (''length'', PInt 3)],
      [(''content'', PStr ''d e''), (''chunk_id'', PInt 4), (''metadata'', PDict []),
       (''length'', PInt 2)]]"
  by (simp add: chunk_text_def clean_text_def py_strip_def semantic_split_def size_split_def
        split_chunk_def py_split_def DocumentChunker_init_def kept_char_def re_word_char_def
        py_isspace_def slice_from_def)

text \<open>
  Claim C6, amended. A chunker with \<^verbatim>\<open>chunk_overlap >= chunk_size\<close> is built like any
  other and its chunking goes on without an error and ends: with a positive
  \<^verbatim>\<open>chunk_size\<close>, a chunk of \<open>n\<close> words, \<open>n\<close> more than \<^verbatim>\<open>chunk_size\<close>, is split into
  \<open>n - chunk_size + 2\<close> windows, one for every word from the \<^verbatim>\<open>chunk_size\<close>-th on and
  one for what is left at the end.
\<close>

theorem size_split_overlap_not_below_size:
  assumes "1 \<le> csize" "csize \<le> coverlap"
    and "csize < int (length (py_split chunk))"
  shows "int (length (size_split (DocumentChunker_init csize coverlap) [chunk]))
           = int (length (py_split chunk)) - csize + 2"
  using split_chunk_windows [of "DocumentChunker_init csize coverlap" chunk] assms
  by (simp add: size_split_def DocumentChunker_init_def)

theorem size_split_overlap_not_below_size_witness:
  "(1::int) \<le> 2 \<and> (2::int) \<le> 2 \<and> 2 < int (length (py_split ''a b c d e'')) \<and>
   int (length (size_split (DocumentChunker_init 2 2) [''a b c d e'']))
     = int (length (py_split ''a b c d e'')) - 2 + 2"
proof -
  have h: "2 < int (length (py_split ''a b c d e''))"
    by (simp add: py_split_def py_isspace_def)
  show ?thesis
    using h size_split_overlap_not_below_size [of 2 2 "''a b c d e''"] by simp
qed

subsection \<open>The window loop when the overlap is below the size and not zero\<close>

lemma split_ws_words:
  "filter py_isspace acc = [] \<Longrightarrow> w \<in> set (split_ws acc s) \<Longrightarrow> is_word w"
proof (induction s arbitrary: acc)
  case Nil
  then show ?case by (auto simp: is_word_def filter_empty_conv split: if_splits)
next
  case (Cons c s)
  show ?case
  proof (cases "py_isspace c")
    case True
    then show ?thesis
      using Cons.prems Cons.IH [of "[]"]
      by (auto simp: is_word_def filter_empty_conv split: if_splits)
  next
    case False
    then show ?thesis
      using Cons.prems Cons.IH [of "c # acc"] by simp
  qed
qed

lemma py_split_words: "w \<in> set (py_split s) \<Longrightarrow> is_word w"
  using split_ws_words [of "[]" w s] by (simp add: py_split_def)

lemma split_ws_word:
  "filter py_isspace w = [] \<Longrightarrow> split_ws acc (w @ rest) = split_ws (rev w @ acc) rest"
  by (induction w arbitrary: acc) (auto split: if_splits)

lemma py_split_join:
  "list_all is_word ws \<Longrightarrow> py_split (str_join '' '' ws) = ws"
proof (induction "'' ''" ws rule: str_join.induct)
  case 1
  then show ?case by (simp add: py_split_def)
next
  case (2 x)
  then show ?case
    using split_ws_word [of x "[]" "[]"] by (simp add: py_split_def is_word_def)
next
  case (3 x y ys)
  have "split_ws [] (x @ '' '' @ str_join '' '' (y # ys))
        = split_ws (rev x) ('' '' @ str_join '' '' (y # ys))"
    using 3 split_ws_word [of x "[]"] by (simp add: is_word_def)
  also have "\<dots> = x # split_ws [] (str_join '' '' (y # ys))"
    using 3 by (simp add: is_word_def)
  finally show ?case using 3 by (simp add: py_split_def)
qed

lemma slice_from_length_below:
  assumes "co \<noteq> 0" "co < cs" "1 \<le> cs" "int (length xs) = cs"
  shows "int (length (slice_from (- co) xs)) < cs"
  using assms by (auto simp: slice_from_def)

lemma set_slice_from: "set (slice_from s xs) \<subseteq> set xs"
  by (auto simp: slice_from_def dest: in_set_dropD)

lemma window_loop_bounded:
  assumes "chunk_overlap self \<noteq> 0" "chunk_overlap self < chunk_size self"
    and "1 \<le> chunk_size self"
    and "int (length current) < chunk_size self"
    and "list_all is_word (current @ ws)"
    and "list_all (within_size self) sub_chunks"
  shows "list_all (within_size self) (fst (window_loop self ws (sub_chunks, current)))
         \<and> list_all is_word (snd (window_loop self ws (sub_chunks, current)))
         \<and> int (length (snd (window_loop self ws (sub_chunks, current)))) < chunk_size self"
  using assms(4,5,6)
proof (induction ws arbitrary: sub_chunks current)
  case Nil
  then show ?case by simp
next
  case (Cons w ws)
  let ?cur = "current @ [w]"
  show ?case
  proof (cases "chunk_size self \<le> int (length ?cur)")
    case True
    then have len: "int (length ?cur) = chunk_size self" using Cons.prems(1) by simp
    have words: "list_all is_word ?cur" using Cons.prems(2) by simp
    have emitted: "within_size self (str_join '' '' ?cur)"
      using py_split_join [OF words] len by (simp add: within_size_def)
    have next_len: "int (length (slice_from (- chunk_overlap self) ?cur)) < chunk_size self"
      using slice_from_length_below [OF assms(1,2,3) len] .
    have next_words: "list_all is_word (slice_from (- chunk_overlap self) ?cur @ ws)"
      using Cons.prems(2) set_slice_from [of "- chunk_overlap self" ?cur]
      by (auto simp: list_all_iff)
    show ?thesis
      using Cons.IH [OF next_len next_words, of "sub_chunks @ [str_join '' '' ?cur]"]
        True emitted Cons.prems(3)
      by simp
  next
    case False
    then have l: "int (length ?cur) < chunk_size self" by simp
    show ?thesis
      using Cons.IH [OF l, of sub_chunks] Cons.prems(2,3) False by simp
  qed
qed

lemma split_chunk_bounded:
  assumes "chunk_overlap self \<noteq> 0" "chunk_overlap self < chunk_size self" "1 \<le> chunk_size self"
  shows "list_all (within_size self) (split_chunk self chunk)"
proof (cases "int (length (py_split chunk)) \<le> chunk_size self")
  case True
  then show ?thesis by (simp add: split_chunk_def within_size_def)
next
  case False
  obtain subs cur where res: "window_loop self (py_split chunk) ([], []) = (subs, cur)"
    by (cases "window_loop self (py_split chunk) ([], [])")
  have words: "list_all is_word ([] @ py_split chunk)"
    using py_split_words by (auto simp: list_all_iff)
  have start: "int (length ([] :: string list)) < chunk_size self" using assms(3) by simp
  have inv: "list_all (within_size self) subs \<and> list_all is_word cur
             \<and> int (length cur) < chunk_size self"
    using window_loop_bounded [OF assms(1,2,3) start words, of "[]"] unfolding res by simp
  then have "within_size self (str_join '' '' cur)"
    using py_split_join [of cur] by (simp add: within_size_def)
  then show ?thesis using False res inv by (simp add: split_chunk_def Let_def)
qed

lemma size_split_bounded:
  assumes "chunk_overlap self \<noteq> 0" "chunk_overlap self < chunk_size self" "1 \<le> chunk_size self"
  shows "list_all (within_size self) (size_split self chunks)"
  using split_chunk_bounded [OF assms]
  by (induction chunks) (simp_all add: size_split_def)

text \<open>
  Claim C7 fails on the code at \<^verbatim>\<open>chunk_overlap = 0\<close>, which satisfies the precondition
  \<^verbatim>\<open>chunk_overlap < chunk_size\<close>: \<^verbatim>\<open>current[-0:]\<close> is the whole list, so the window is
  never cut back and every further word emits a longer chunk. With \<^verbatim>\<open>chunk_size = 2\<close> a
  text of five words gives chunks of 2, 3, 4, 5 and 5 tokens.
\<close>

theorem chunk_text_zero_overlap:
  "chunk_text (DocumentChunker_init 2 0) ''a b c d e'' None =
     [[(''content'', PStr ''a b''), (''chunk_id'', PInt 0), (''metadata'', PDict []),
       (''length'', PInt 2)],
      [(''content'', PStr ''a b c''), (''chunk_id'', PInt 1), (''metadata'', PDict []),
       (''length'', PInt 3)],
      [(''content'', PStr ''a b c d''), (''chunk_id'', PInt 2), (''metadata'', PDict []),
       (''length'', PInt 4)],
      [(''content'', PStr ''a b c d e''), (''chunk_id'', PInt 3), (''metadata'', PDict []),
       (''length'', PInt 5)],
      [(''content'', PStr ''a b c d e''), (''chunk_id'', PInt 4), (''metadata'', PDict []),
       (''length'', PInt 5)]]"
  by (simp add: chunk_text_def clean_text_def py_strip_def semantic_split_def size_split_def
        split_chunk_def py_split_def DocumentChunker_init_def kept_char_def re_word_char_def
        py_isspace_def slice_from_def)

text \<open>
  What holds of the size bound: when \<^verbatim>\<open>chunk_overlap\<close> is below \<^verbatim>\<open>chunk_size\<close> and is
  not zero, and \<^verbatim>\<open>chunk_size\<close> is positive, every chunk that \<^verbatim>\<open>chunk_text\<close> emits has at
  most \<^verbatim>\<open>chunk_size\<close> whitespace-delimited tokens, and its \<^verbatim>\<open>length\<close> entry is that
  number of tokens.
\<close>

theorem chunk_text_within_size:
  assumes "chunk_overlap self \<noteq> 0" "chunk_overlap self < chunk_size self" "1 \<le> chunk_size self"
  shows "list_all (chunk_within_size self) (chunk_text self text metadata)"
proof -
  have "\<And>i c. within_size self c \<Longrightarrow> chunk_within_size self (chunk_dict metadata (i, c))"
    by (simp add: chunk_within_size_def)
  then show ?thesis
    using size_split_bounded [OF assms, of "semantic_split self (clean_text text)"]
    by (auto simp: chunk_text_def list_all_iff in_set_enumerate_eq)
qed

theorem chunk_text_within_size_witness:
  "chunk_overlap (DocumentChunker_init 3 1) \<noteq> 0 \<and>
   chunk_overlap (DocumentChunker_init 3 1) < chunk_size (DocumentChunker_init 3 1) \<and>
   1 \<le> chunk_size (DocumentChunker_init 3 1) \<and>
   list_all (chunk_within_size (DocumentChunker_init 3 1))
     (chunk_text (DocumentChunker_init 3 1) ''a b c d e f g h'' None)"
  using chunk_text_within_size [of "DocumentChunker_init 3 1" "''a b c d e f g h''" None]
  by (simp add: DocumentChunker_init_def)

subsection \<open>The paragraph split after normalisation\<close>

lemma py_isspace_newline: "py_isspace (CHR 0x0A)"
  by (simp add: py_isspace_def)

lemma collapse_whitespace_no_newline: "CHR 0x0A \<notin> set (collapse_whitespace b s)"
  by (induction s arbitrary: b) (auto simp: py_isspace_newline)

lemma clean_text_no_newline: "CHR 0x0A \<notin> set (clean_text s)"
proof -
  have "set (clean_text s) \<subseteq> set (collapse_whitespace False s)"
    by (auto simp: clean_text_def py_strip_def dest!: set_dropWhileD)
  then show ?thesis using collapse_whitespace_no_newline by blast
qed

lemma split_paragraphs_single:
  "CHR 0x0A \<notin> set s \<Longrightarrow> split_paragraphs acc s = [rev acc @ s]"
  by (induction acc s rule: split_paragraphs.induct) auto

text \<open>
  \<^verbatim>\<open>_clean_text\<close> turns every line feed into a space before \<^verbatim>\<open>_semantic_split\<close> looks
  for paragraphs, so the cleaned text is always one paragraph and \<^verbatim>\<open>_semantic_split\<close>
  returns at most one chunk: all splitting of a document is done by \<^verbatim>\<open>_size_split\<close>.
\<close>

theorem semantic_split_one_paragraph:
  "CHR 0x0A \<notin> set (clean_text s) \<and>
   split_paragraphs [] (clean_text s) = [clean_text s] \<and>
   length (semantic_split self (clean_text s)) \<le> 1"
  using split_paragraphs_single [OF clean_text_no_newline, of "[]" s] clean_text_no_newline [of s]
  by (simp add: semantic_split_def)

section \<open>Vector database and retrieval\<close>

lemma str_nat_0: "str_nat 0 = ''0''"
  by (subst str_nat.simps) (simp add: digit_char_def)

lemma document_ids_one: "document_ids (Suc 0) = [''doc_0'']"
  by (simp add: document_ids_def str_nat_0)

text \<open>
  Claim C5 fails on the code: the ids are \<^verbatim>\<open>doc_0 .. doc_{n-1}\<close> by position in the
  batch of one call, so a second \<^verbatim>\<open>add_documents\<close> on the same instance hands the
  collection the id \<^verbatim>\<open>doc_0\<close> again, for another passage.
\<close>

theorem add_documents_ids_restart:
  "add_documents list_collection sample_db [[(''content'', PStr ''A'')]] [[0]] =
     Inr (sample_db\<lparr>collection := [(''doc_0'', [0], PStr ''A'', PDict [])]\<rparr>) \<and>
   add_documents list_collection
     (sample_db\<lparr>collection := [(''doc_0'', [0], PStr ''A'', PDict [])]\<rparr>)
     [[(''content'', PStr ''B'')]] [[1]] =
     Inr (sample_db\<lparr>collection := [(''doc_0'', [0], PStr ''A'', PDict []),
                                      (''doc_0'', [1], PStr ''B'', PDict [])]\<rparr>)"
  by (simp add: add_documents_def list_collection_def sample_db_def document_ids_one dict_get_def)

lemma digit_char_code: "d < 10 \<Longrightarrow> of_char (digit_char d) = 48 + d"
  by (auto simp: numeral_eq_Suc less_Suc_eq digit_char_def)

lemma digits_value_append:
  "digits_value acc (xs @ ys) = digits_value (digits_value acc xs) ys"
  by (induction xs arbitrary: acc) simp_all

lemma digits_value_str_nat: "digits_value acc (str_nat n) = 10 ^ length (str_nat n) * acc + n"
proof (induction n arbitrary: acc rule: str_nat.induct)
  case (1 n)
  show ?case
  proof (cases "n < 10")
    case True
    then show ?thesis by (subst (1 2) str_nat.simps) (simp add: digit_char_code)
  next
    case False
    have unfold: "str_nat n = str_nat (n div 10) @ [digit_char (n mod 10)]"
      using False by (subst str_nat.simps) simp
    have "digits_value acc (str_nat n)
          = digits_value (digits_value acc (str_nat (n div 10))) [digit_char (n mod 10)]"
      by (simp add: unfold digits_value_append)
    also have "\<dots> = 10 * (10 ^ length (str_nat (n div 10)) * acc + n div 10) + n mod 10"
      using 1 [OF False] by (simp add: digit_char_code)
    also have "\<dots> = 10 ^ length (str_nat n) * acc + n"
      by (simp add: unfold algebra_simps)
    finally show ?thesis .
  qed
qed

lemma digits_value_str_nat_0: "digits_value 0 (str_nat n) = n"
  by (simp only: digits_value_str_nat mult_0_right add_0_left)

lemma str_nat_inj:
  assumes "str_nat m = str_nat n"
  shows "m = n"
proof -
  have "digits_value 0 (str_nat m) = digits_value 0 (str_nat n)"
    by (simp only: assms)
  then show ?thesis by (simp only: digits_value_str_nat_0)
qed

text \<open>
  What holds of the ids: within one call of \<^verbatim>\<open>add_documents\<close> on \<open>n\<close> passages the ids
  are \<open>n\<close> strings that differ from each other.
\<close>

theorem document_ids_distinct: "distinct (document_ids n) \<and> length (document_ids n) = n"
  by (auto simp: document_ids_def distinct_map inj_on_def dest: str_nat_inj)

text \<open>
  Claim C9, as stated, fails: \<^verbatim>\<open>retrieve\<close> and \<^verbatim>\<open>search\<close> hand \<^verbatim>\<open>top_k\<close> to the
  collection's query as it is, and a collection that rejects a number of results that
  is not positive (as Chroma does) makes \<^verbatim>\<open>retrieve\<close> raise for \<^verbatim>\<open>top_k = 0\<close>.
\<close>

theorem retrieve_zero_top_k_raises:
  "retrieve list_collection sample_pipeline (PStr ''q'') (PInt 0) =
     Inl (Exn TypeError ''Number of requested results cannot be negative, or zero.'')"
  by (simp add: retrieve_def search_def embed_single_def embed_texts_def sample_pipeline_def
        sample_embedding_def sample_db_def list_collection_def)

lemma collect_hits_not_empty: "xs \<noteq> [] \<Longrightarrow> collect_hits results xs \<noteq> Inr []"
  by (cases xs) (auto split: sum.splits)

text \<open>
  Claim C9, amended. \<^verbatim>\<open>retrieve(query, top_k)\<close> passes \<^verbatim>\<open>top_k\<close> unchanged to the query
  of the vector store, also when \<^verbatim>\<open>top_k\<close> is zero or negative, and its outcome is the
  store's: when the store's query raises, \<^verbatim>\<open>retrieve\<close> raises the same exception; when
  the store answers, \<^verbatim>\<open>retrieve\<close> returns the empty sequence exactly when the answer
  holds no document.
\<close>

theorem retrieve_follows_store:
  assumes "embed_single (embedding_manager self) q = Inr v"
  shows "(coll_query api (collection (vector_db self)) [v] top_k = Inl e
            \<longrightarrow> retrieve api self q top_k = Inl e) \<and>
         (coll_query api (collection (vector_db self)) [v] top_k = Inr results
            \<longrightarrow> (retrieve api self q top_k = Inr [] \<longleftrightarrow> no_documents results))"
proof (intro conjI impI)
  assume "coll_query api (collection (vector_db self)) [v] top_k = Inl e"
  then show "retrieve api self q top_k = Inl e"
    using assms by (simp add: retrieve_def search_def)
next
  assume r: "coll_query api (collection (vector_db self)) [v] top_k = Inr results"
  show "retrieve api self q top_k = Inr [] \<longleftrightarrow> no_documents results"
  proof (cases "documents results")
    case None
    then show ?thesis using assms r by (simp add: retrieve_def search_def no_documents_def)
  next
    case (Some rows)
    show ?thesis
    proof (cases rows)
      case Nil
      then show ?thesis
        using assms r Some by (simp add: retrieve_def search_def no_documents_def)
    next
      case (Cons row rest)
      then show ?thesis
        using assms r Some collect_hits_not_empty [of "enumerate 0 row" results]
        by (cases row) (simp_all add: retrieve_def search_def no_documents_def)
    qed
  qed
qed

theorem retrieve_follows_store_witness:
  "embed_single (embedding_manager sample_pipeline) (PStr ''q'') = Inr [0] \<and>
   coll_query list_collection (collection (vector_db sample_pipeline)) [[0]] (PInt 0)
     = Inl (Exn TypeError ''Number of requested results cannot be negative, or zero.'') \<and>
   retrieve list_collection sample_pipeline (PStr ''q'') (PInt 0)
     = Inl (Exn TypeError ''Number of requested results cannot be negative, or zero.'') \<and>
   coll_query list_collection (collection (vector_db sample_pipeline)) [[0]] (PInt 1)
     = Inr \<lparr>documents = Some [[]], distances = Some [[]], metadatas = Some [[]]\<rparr> \<and>
   no_documents \<lparr>documents = Some [[]], distances = Some [[]], metadatas = Some [[]]\<rparr> \<and>
   retrieve list_collection sample_pipeline (PStr ''q'') (PInt 1) = Inr []"
proof -
  have h: "embed_single (embedding_manager sample_pipeline) (PStr ''q'') = Inr [0]"
    by (simp add: embed_single_def embed_texts_def sample_pipeline_def sample_embedding_def)
  have q0: "coll_query list_collection (collection (vector_db sample_pipeline)) [[0]] (PInt 0)
     = Inl (Exn TypeError ''Number of requested results cannot be negative, or zero.'')"
    by (simp add: list_collection_def)
  have q1: "coll_query list_collection (collection (vector_db sample_pipeline)) [[0]] (PInt 1)
     = Inr \<lparr>documents = Some [[]], distances = Some [[]], metadatas = Some [[]]\<rparr>"
    by (simp add: list_collection_def sample_pipeline_def sample_db_def)
  have n: "no_documents \<lparr>documents = Some [[]], distances = Some [[]], metadatas = Some [[]]\<rparr>"
    by (simp add: no_documents_def)
  show ?thesis
    using h q0 q1 n
      retrieve_follows_store [OF h, of list_collection "PInt 0"
        "Exn TypeError ''Number of requested results cannot be negative, or zero.''"]
      retrieve_follows_store [OF h, of list_collection "PInt 1" _
        "\<lparr>documents = Some [[]], distances = Some [[]], metadatas = Some [[]]\<rparr>"]
    by simp
qed

section \<open>The agent loop\<close>

lemma format_conversation_history_state [simp]:
  "format_conversation_history (self\<lparr>state := s\<rparr>) = format_conversation_history self"
  by (simp add: format_conversation_history_def)

lemma handle_tool_call_raises:
  "\<exists>e self'. handle_tool_call rt self iteration response_text tool_call = (Inl e, self')"
  by (simp add: handle_tool_call_def asdict_def ToolResult_kind_def split: sum.splits)

lemma handle_tool_call_missing_tool:
  "map_of kvs ''tool'' = None \<Longrightarrow>
   handle_tool_call rt self iteration response_text (PDict kvs) = (Inl (Exn KeyError ''tool''), self)"
  by (simp add: handle_tool_call_def)

lemma agent_loop_first_tool_call:
  assumes "iteration < max_iterations self"
    and "llm self l (format_conversation_history self) = (Inr r, l')"
    and "should_use_tool r" "parse_tool_call rt r = Some tc" "py_truthy tc"
    and "handle_tool_call rt (self\<lparr>state := TOOL_CALLING\<rparr>) (iteration + 1) r tc = (Inl e, self')"
  shows "agent_loop rt self l iteration = (Inl e, self', l')"
  using assms by (subst agent_loop.simps) (simp add: Let_def)

lemma sample_agent_llm:
  "llm (sample_agent answer budget) l prompt = (Inr answer, l @ [prompt])"
  by (simp add: sample_agent_def AIAgent_init_def constant_llm_def)

lemma sample_agent_budget: "max_iterations (sample_agent answer budget) = budget"
  by (simp add: sample_agent_def AIAgent_init_def)

lemma should_use_tool_calculator_call: "should_use_tool calculator_call_text"
  by (simp add: should_use_tool_def calculator_call_text_def)

lemma parse_calculator_call:
  "parse_tool_call sample_runtime calculator_call_text = Some calculator_call"
  by (simp add: parse_tool_call_def calculator_call_text_def sample_runtime_def sample_loads_def
        str_find_def str_rfind_def py_slice_def slice_index_def Let_def)

lemma should_use_tool_tools_object: "should_use_tool tools_object_text"
  by (simp add: should_use_tool_def tools_object_text_def)

lemma parse_tools_object:
  "parse_tool_call sample_runtime tools_object_text = Some tools_object"
  by (simp add: parse_tool_call_def tools_object_text_def calculator_call_text_def
        sample_runtime_def sample_loads_def
        str_find_def str_rfind_def py_slice_def slice_index_def Let_def)

lemma should_use_tool_truncated_call: "should_use_tool truncated_call_text"
  by (simp add: should_use_tool_def truncated_call_text_def)

lemma parse_truncated_call:
  "parse_tool_call sample_runtime truncated_call_text = None"
  by (simp add: parse_tool_call_def truncated_call_text_def tools_object_text_def
        calculator_call_text_def sample_runtime_def sample_loads_def
        str_find_def str_rfind_def py_slice_def slice_index_def Let_def)

lemma begin_query_forgets:
  "begin_query rt (self\<lparr>state := s, conversation_history := h, current_trace := t\<rparr>) q
     = begin_query rt self q"
  by (simp add: begin_query_def Let_def)

lemma py_upper_user: "py_upper ''user'' = ''USER''"
  by code_simp

text \<open>
  Claim C1 fails on the code. Once a response has been parsed to a tool call, the
  iteration runs \<^verbatim>\<open>asdict(tool_result)\<close> (agent.py, line 178) if \<^verbatim>\<open>execute_tool\<close> and the
  subscripts before it have not raised already; \<^verbatim>\<open>tool_result\<close> is a \<^verbatim>\<open>ToolResult\<close>, a
  pydantic model and no dataclass, so \<^verbatim>\<open>dataclasses.asdict\<close> raises TypeError. With a
  positive budget, the first response that is a tool call therefore ends
  \<^verbatim>\<open>execute_query\<close> with an exception: it never reaches a second iteration, and it
  returns no result with \<^verbatim>\<open>success=False\<close>.
\<close>

theorem execute_query_tool_call_raises:
  assumes "0 < max_iterations self"
    and "llm self l (format_conversation_history (begin_query rt self q)) = (Inr r, l')"
    and "should_use_tool r" "parse_tool_call rt r = Some tc" "py_truthy tc"
  shows "\<exists>e self'. execute_query rt self l q = (Inl e, self', l')"
proof -
  let ?a = "begin_query rt self q"
  obtain e self' where h: "handle_tool_call rt (?a\<lparr>state := TOOL_CALLING\<rparr>) (0 + 1) r tc = (Inl e, self')"
    using handle_tool_call_raises by blast
  have m: "0 < max_iterations ?a" using assms(1) by (simp add: begin_query_def Let_def)
  have l: "llm ?a l (format_conversation_history ?a) = (Inr r, l')"
    using assms(2) by (simp add: begin_query_def Let_def)
  have "agent_loop rt ?a l 0 = (Inl e, self', l')"
    using agent_loop_first_tool_call [OF m l assms(3,4,5) h] .
  then show ?thesis by (simp add: execute_query_def)
qed

theorem execute_query_tool_call_raises_witness:
  "0 < max_iterations (sample_agent calculator_call_text 10) \<and>
   llm (sample_agent calculator_call_text 10) []
     (format_conversation_history
        (begin_query sample_runtime (sample_agent calculator_call_text 10) ''What is 2 + 2?''))
     = (Inr calculator_call_text,
        [format_conversation_history
           (begin_query sample_runtime (sample_agent calculator_call_text 10) ''What is 2 + 2?'')]) \<and>
   should_use_tool calculator_call_text \<and>
   parse_tool_call sample_runtime calculator_call_text = Some calculator_call \<and>
   py_truthy calculator_call \<and>
   (\<exists>e self'. execute_query sample_runtime (sample_agent calculator_call_text 10) []
        ''What is 2 + 2?''
      = (Inl e, self',
         [format_conversation_history
            (begin_query sample_runtime (sample_agent calculator_call_text 10)
               ''What is 2 + 2?'')]))"
proof -
  have b: "0 < max_iterations (sample_agent calculator_call_text 10)"
    by (simp add: sample_agent_budget)
  have l: "llm (sample_agent calculator_call_text 10) []
     (format_conversation_history
        (begin_query sample_runtime (sample_agent calculator_call_text 10) ''What is 2 + 2?''))
     = (Inr calculator_call_text,
        [format_conversation_history
           (begin_query sample_runtime (sample_agent calculator_call_text 10) ''What is 2 + 2?'')])"
    by (simp add: sample_agent_llm)
  have t: "py_truthy calculator_call" by (simp add: calculator_call_def)
  show ?thesis
    using b l should_use_tool_calculator_call parse_calculator_call t
      execute_query_tool_call_raises
        [OF b l should_use_tool_calculator_call parse_calculator_call t]
    by (intro conjI)
qed

text \<open>The same on the calculator call of the spec's end-to-end scenario, with the exception
  that is raised.\<close>

theorem execute_query_calculator_call_raises:
  "fst (execute_query sample_runtime (sample_agent calculator_call_text 10) [] ''What is 2 + 2?'')
     = Inl (Exn TypeError ''asdict() should be called on dataclass instances'')"
proof -
  let ?a = "begin_query sample_runtime (sample_agent calculator_call_text 10) ''What is 2 + 2?''"
  have m: "0 < max_iterations ?a"
    by (simp add: begin_query_def Let_def sample_agent_budget)
  have l: "llm ?a [] (format_conversation_history ?a)
           = (Inr calculator_call_text, [format_conversation_history ?a])"
    using sample_agent_llm [of calculator_call_text 10 "[]"]
    by (simp add: begin_query_def Let_def)
  have reg: "tool_registry ?a = ToolRegistry_init sample_runtime None"
    by (simp add: begin_query_def Let_def sample_agent_def AIAgent_init_def)
  have ev: "py_eval sample_runtime (PStr ''2 + 2'') = Inr (PInt 4)"
    by (simp add: sample_runtime_def sample_eval_def)
  have h: "handle_tool_call sample_runtime (?a\<lparr>state := TOOL_CALLING\<rparr>) (0 + 1)
             calculator_call_text calculator_call
           = (Inl (Exn TypeError ''asdict() should be called on dataclass instances''),
              ?a\<lparr>state := TOOL_CALLING\<rparr>)"
    by (simp add: handle_tool_call_def calculator_call_def dict_get_def reg
          default_registry_tools CalculatorTool_def CalculatorTool_execute_def
          unexpected_keywords_def ev asdict_def ToolResult_kind_def)
  have t: "py_truthy calculator_call" by (simp add: calculator_call_def)
  have "agent_loop sample_runtime ?a [] 0
        = (Inl (Exn TypeError ''asdict() should be called on dataclass instances''),
           ?a\<lparr>state := TOOL_CALLING\<rparr>, [format_conversation_history ?a])"
    using agent_loop_first_tool_call
      [OF m l should_use_tool_calculator_call parse_calculator_call t h] .
  then show ?thesis by (simp add: execute_query_def)
qed

text \<open>
  Claim C2 fails on the code for a slice that decodes to an object without the key
  \<^verbatim>\<open>tool\<close>: \<^verbatim>\<open>_parse_tool_call\<close> returns whatever \<^verbatim>\<open>json.loads\<close> gives, a dict that is
  not empty is true, and \<^verbatim>\<open>tool_call["tool"]\<close> (agent.py, line 169) raises KeyError out
  of \<^verbatim>\<open>execute_query\<close>.
\<close>

theorem execute_query_missing_tool_key:
  assumes "0 < max_iterations self"
    and "llm self l (format_conversation_history (begin_query rt self q)) = (Inr r, l')"
    and "should_use_tool r" "parse_tool_call rt r = Some (PDict kvs)" "kvs \<noteq> []"
    and "map_of kvs ''tool'' = None"
  shows "execute_query rt self l q =
           (Inl (Exn KeyError ''tool''), (begin_query rt self q)\<lparr>state := TOOL_CALLING\<rparr>, l')"
proof -
  let ?a = "begin_query rt self q"
  have m: "0 < max_iterations ?a" using assms(1) by (simp add: begin_query_def Let_def)
  have l: "llm ?a l (format_conversation_history ?a) = (Inr r, l')"
    using assms(2) by (simp add: begin_query_def Let_def)
  have t: "py_truthy (PDict kvs)" using assms(5) by simp
  have "agent_loop rt ?a l 0 = (Inl (Exn KeyError ''tool''), ?a\<lparr>state := TOOL_CALLING\<rparr>, l')"
    using agent_loop_first_tool_call [OF m l assms(3,4) t
        handle_tool_call_missing_tool [OF assms(6)]] .
  then show ?thesis by (simp add: execute_query_def)
qed

theorem execute_query_missing_tool_key_witness:
  "0 < max_iterations (sample_agent tools_object_text 10) \<and>
   should_use_tool tools_object_text \<and>
   parse_tool_call sample_runtime tools_object_text = Some (PDict [(''tools'', PInt 1)]) \<and>
   [(''tools'', PInt 1)] \<noteq> [] \<and>
   map_of [(''tools'', PInt 1)] ''tool'' = None \<and>
   fst (execute_query sample_runtime (sample_agent tools_object_text 10) [] ''hi'')
     = Inl (Exn KeyError ''tool'')"
proof -
  have b: "0 < max_iterations (sample_agent tools_object_text 10)"
    by (simp add: sample_agent_budget)
  have l: "llm (sample_agent tools_object_text 10) []
     (format_conversation_history
        (begin_query sample_runtime (sample_agent tools_object_text 10) ''hi''))
     = (Inr tools_object_text,
        [format_conversation_history
           (begin_query sample_runtime (sample_agent tools_object_text 10) ''hi'')])"
    by (simp add: sample_agent_llm)
  have p: "parse_tool_call sample_runtime tools_object_text = Some (PDict [(''tools'', PInt 1)])"
    using parse_tools_object by (simp add: tools_object_def)
  have n: "[(''tools'', PInt 1)] \<noteq> []" by simp
  have k: "map_of [(''tools'', PInt 1)] ''tool'' = None" by simp
  show ?thesis
    using b should_use_tool_tools_object p n k
      execute_query_missing_tool_key [OF b l should_use_tool_tools_object p n k]
    by simp
qed

lemma non_tool_answer_outcome:
  assumes "0 < max_iterations self"
    and "llm self l (format_conversation_history (begin_query rt self q)) = (Inr r, l')"
    and "parse_tool_call rt r = None \<or> (\<exists>tc. parse_tool_call rt r = Some tc \<and> \<not> py_truthy tc)"
  shows "execute_query rt self l q =
           (Inr \<lparr>res_query = q,
                 response = (if r \<noteq> [] then r else ''Failed to generate response''),
                 trace = (ExecutionTrace_init q)
                   \<lparr>messages := [\<lparr>role = ''user'', content = q,
                                   timestamp = now_isoformat rt, tool_calls = []\<rparr>],
                    status := (if r \<noteq> [] then ''completed'' else ''error''),
                    execution_time := elapsed_seconds rt\<rparr>,
                 iterations = 1,
                 res_success = True\<rparr>,
            (begin_query rt self q)
              \<lparr>conversation_history :=
                 [\<lparr>role = ''user'', content = q, timestamp = now_isoformat rt, tool_calls = []\<rparr>,
                  \<lparr>role = ''assistant'', content = r, timestamp = now_isoformat rt,
                   tool_calls = []\<rparr>],
               state := COMPLETED,
               current_trace := Some ((ExecutionTrace_init q)
                   \<lparr>messages := [\<lparr>role = ''user'', content = q,
                                   timestamp = now_isoformat rt, tool_calls = []\<rparr>],
                    status := (if r \<noteq> [] then ''completed'' else ''error''),
                    execution_time := elapsed_seconds rt\<rparr>)\<rparr>,
            l')"
proof -
  let ?a = "begin_query rt self q"
  have m: "0 < max_iterations ?a" using assms(1) by (simp add: begin_query_def Let_def)
  have l: "llm ?a l (format_conversation_history ?a) = (Inr r, l')"
    using assms(2) by (simp add: begin_query_def Let_def)
  have loop: "agent_loop rt ?a l 0 =
        (Inr (Some r, 1),
         ?a\<lparr>conversation_history := conversation_history ?a
               @ [\<lparr>role = ''assistant'', content = r, timestamp = now_isoformat rt,
                   tool_calls = []\<rparr>],
            state := COMPLETED\<rparr>, l')"
    using m l assms(3)
    by (subst agent_loop.simps) (auto simp: Let_def final_answer_def)
  show ?thesis
    unfolding execute_query_def loop
    by (simp add: asdict_def ExecutionTrace_kind_def begin_query_def Let_def)
qed

text \<open>
  What holds of a response that is no tool call: when the first response does not pass
  the heuristic, or \<^verbatim>\<open>json.loads\<close> raises on the slice, or the slice decodes to a value
  that is false (the empty object), the response is the final answer: one iteration,
  \<^verbatim>\<open>success=True\<close>, the response text returned as it is (the failure message if it is
  the empty string), and the assistant message appended to the history.
\<close>

theorem execute_query_non_tool_answer:
  assumes "0 < max_iterations self"
    and "llm self l (format_conversation_history (begin_query rt self q)) = (Inr r, l')"
    and "parse_tool_call rt r = None \<or> (\<exists>tc. parse_tool_call rt r = Some tc \<and> \<not> py_truthy tc)"
  shows "execute_query rt self l q =
           (Inr \<lparr>res_query = q,
                 response = (if r \<noteq> [] then r else ''Failed to generate response''),
                 trace = (ExecutionTrace_init q)
                   \<lparr>messages := [\<lparr>role = ''user'', content = q,
                                   timestamp = now_isoformat rt, tool_calls = []\<rparr>],
                    status := (if r \<noteq> [] then ''completed'' else ''error''),
                    execution_time := elapsed_seconds rt\<rparr>,
                 iterations = 1,
                 res_success = True\<rparr>,
            (begin_query rt self q)
              \<lparr>conversation_history :=
                 [\<lparr>role = ''user'', content = q, timestamp = now_isoformat rt, tool_calls = []\<rparr>,
                  \<lparr>role = ''assistant'', content = r, timestamp = now_isoformat rt,
                   tool_calls = []\<rparr>],
               state := COMPLETED,
               current_trace := Some ((ExecutionTrace_init q)
                   \<lparr>messages := [\<lparr>role = ''user'', content = q,
                                   timestamp = now_isoformat rt, tool_calls = []\<rparr>],
                    status := (if r \<noteq> [] then ''completed'' else ''error''),
                    execution_time := elapsed_seconds rt\<rparr>)\<rparr>,
            l')"
  using assms by (rule non_tool_answer_outcome)

theorem execute_query_non_tool_answer_witness:
  "0 < max_iterations (sample_agent truncated_call_text 10) \<and>
   should_use_tool truncated_call_text \<and>
   parse_tool_call sample_runtime truncated_call_text = None \<and>
   fst (execute_query sample_runtime (sample_agent truncated_call_text 10) [] ''hi'') =
     Inr \<lparr>res_query = ''hi'',
          response = truncated_call_text,
          trace = (ExecutionTrace_init ''hi'')
            \<lparr>messages := [\<lparr>role = ''user'', content = ''hi'',
                            timestamp = now_isoformat sample_runtime, tool_calls = []\<rparr>],
             status := ''completed'',
             execution_time := elapsed_seconds sample_runtime\<rparr>,
          iterations = 1,
          res_success = True\<rparr>"
proof -
  have b: "0 < max_iterations (sample_agent truncated_call_text 10)"
    by (simp add: sample_agent_budget)
  have l: "llm (sample_agent truncated_call_text 10) []
     (format_conversation_history
        (begin_query sample_runtime (sample_agent truncated_call_text 10) ''hi''))
     = (Inr truncated_call_text,
        [format_conversation_history
           (begin_query sample_runtime (sample_agent truncated_call_text 10) ''hi'')])"
    by (simp add: sample_agent_llm)
  have p: "parse_tool_call sample_runtime truncated_call_text = None
           \<or> (\<exists>tc. parse_tool_call sample_runtime truncated_call_text = Some tc \<and> \<not> py_truthy tc)"
    using parse_truncated_call by simp
  have ne: "truncated_call_text \<noteq> []" by (simp add: truncated_call_text_def)
  show ?thesis
    using b should_use_tool_truncated_call parse_truncated_call ne
      execute_query_non_tool_answer [OF b l p]
    by simp
qed

text \<open>
  With a budget that is zero or negative the loop body never runs: the generation
  capability is not called, and the result is \<^verbatim>\<open>success=False\<close> with the failure message
  and an iteration count of 0.
\<close>

theorem execute_query_without_budget:
  assumes "max_iterations self \<le> 0"
  shows "execute_query rt self l q =
           (Inr \<lparr>res_query = q,
                 response = ''Failed to generate response'',
                 trace = (ExecutionTrace_init q)
                   \<lparr>messages := [\<lparr>role = ''user'', content = q,
                                   timestamp = now_isoformat rt, tool_calls = []\<rparr>],
                    status := ''error'',
                    execution_time := elapsed_seconds rt\<rparr>,
                 iterations = 0,
                 res_success = False\<rparr>,
            (begin_query rt self q)
              \<lparr>current_trace := Some ((ExecutionTrace_init q)
                   \<lparr>messages := [\<lparr>role = ''user'', content = q,
                                   timestamp = now_isoformat rt, tool_calls = []\<rparr>],
                    status := ''error'',
                    execution_time := elapsed_seconds rt\<rparr>)\<rparr>,
            l)"
proof -
  let ?a = "begin_query rt self q"
  have m: "\<not> 0 < max_iterations ?a" using assms by (simp add: begin_query_def Let_def)
  have loop: "agent_loop rt ?a l 0 = (Inr (None, 0), ?a, l)"
    using m by (subst agent_loop.simps) simp
  show ?thesis
    unfolding execute_query_def loop
    by (simp add: asdict_def ExecutionTrace_kind_def begin_query_def Let_def)
qed

theorem execute_query_without_budget_witness:
  "max_iterations (sample_agent calculator_call_text 0) \<le> 0 \<and>
   fst (execute_query sample_runtime (sample_agent calculator_call_text 0) [] ''hi'') =
     Inr \<lparr>res_query = ''hi'',
          response = ''Failed to generate response'',
          trace = (ExecutionTrace_init ''hi'')
            \<lparr>messages := [\<lparr>role = ''user'', content = ''hi'',
                            timestamp = now_isoformat sample_runtime, tool_calls = []\<rparr>],
             status := ''error'',
             execution_time := elapsed_seconds sample_runtime\<rparr>,
          iterations = 0,
          res_success = False\<rparr> \<and>
   snd (snd (execute_query sample_runtime (sample_agent calculator_call_text 0) [] ''hi'')) = []"
proof -
  have b: "max_iterations (sample_agent calculator_call_text 0) \<le> 0"
    by (simp add: sample_agent_budget)
  show ?thesis
    using b execute_query_without_budget [OF b, of sample_runtime "[]" "''hi''"] by simp
qed

text \<open>
  Claim C10. \<^verbatim>\<open>execute_query\<close> starts by replacing the conversation history with the
  new user message alone, so the whole outcome of a call (its result, the agent it
  leaves, and the state of the generation capability, which has seen every prompt of
  the call) is the same whatever history, trace and state earlier calls have left on
  the agent; the first prompt is the system prompt followed by the new user message
  only.
\<close>

theorem execute_query_resets_history:
  "execute_query rt (self\<lparr>state := s, conversation_history := h, current_trace := t\<rparr>) l q
     = execute_query rt self l q \<and>
   conversation_history (begin_query rt self q)
     = [\<lparr>role = ''user'', content = q, timestamp = now_isoformat rt, tool_calls = []\<rparr>] \<and>
   format_conversation_history (begin_query rt self q)
     = system_prompt self @ [CHR 0x0A, CHR 0x0A] @ ''USER: '' @ q @ [CHR 0x0A] @ ''ASSISTANT: ''"
proof (intro conjI)
  show "execute_query rt (self\<lparr>state := s, conversation_history := h, current_trace := t\<rparr>) l q
          = execute_query rt self l q"
    by (simp only: execute_query_def begin_query_forgets)
  show "conversation_history (begin_query rt self q)
     = [\<lparr>role = ''user'', content = q, timestamp = now_isoformat rt, tool_calls = []\<rparr>]"
    by (simp add: begin_query_def Let_def)
  show "format_conversation_history (begin_query rt self q)
     = system_prompt self @ [CHR 0x0A, CHR 0x0A] @ ''USER: '' @ q @ [CHR 0x0A] @ ''ASSISTANT: ''"
    by (simp add: begin_query_def Let_def format_conversation_history_def format_message_def
          py_upper_user)
qed

theorem execute_query_resets_history_witness:
  "snd (snd (execute_query sample_runtime
       ((sample_agent truncated_call_text 10)
          \<lparr>state := COMPLETED,
           conversation_history :=
             [\<lparr>role = ''user'', content = ''an earlier question'', timestamp = ''t0'',
               tool_calls = []\<rparr>,
              \<lparr>role = ''assistant'', content = ''an earlier answer'', timestamp = ''t1'',
               tool_calls = []\<rparr>],
           current_trace := None\<rparr>) [] ''hi''))
   = [system_prompt (sample_agent truncated_call_text 10) @ [CHR 0x0A, CHR 0x0A]
      @ ''USER: '' @ ''hi'' @ [CHR 0x0A] @ ''ASSISTANT: '']"
proof -
  let ?a = "sample_agent truncated_call_text 10"
  have b: "0 < max_iterations ?a" by (simp add: sample_agent_budget)
  have l: "llm ?a [] (format_conversation_history (begin_query sample_runtime ?a ''hi''))
     = (Inr truncated_call_text,
        [format_conversation_history (begin_query sample_runtime ?a ''hi'')])"
    by (simp add: sample_agent_llm)
  have p: "parse_tool_call sample_runtime truncated_call_text = None
           \<or> (\<exists>tc. parse_tool_call sample_runtime truncated_call_text = Some tc \<and> \<not> py_truthy tc)"
    using parse_truncated_call by simp
  have fresh: "snd (snd (execute_query sample_runtime ?a [] ''hi''))
               = [format_conversation_history (begin_query sample_runtime ?a ''hi'')]"
    by (simp only: non_tool_answer_outcome [OF b l p] snd_conv)
  have same: "execute_query sample_runtime
       (?a\<lparr>state := COMPLETED,
           conversation_history :=
             [\<lparr>role = ''user'', content = ''an earlier question'', timestamp = ''t0'',
               tool_calls = []\<rparr>,
              \<lparr>role = ''assistant'', content = ''an earlier answer'', timestamp = ''t1'',
               tool_calls = []\<rparr>],
           current_trace := None\<rparr>) [] ''hi''
     = execute_query sample_runtime ?a [] ''hi''"
    by (rule execute_query_resets_history [THEN conjunct1])
  have prompt: "format_conversation_history (begin_query sample_runtime ?a ''hi'')
     = system_prompt ?a @ [CHR 0x0A, CHR 0x0A] @ ''USER: '' @ ''hi'' @ [CHR 0x0A] @ ''ASSISTANT: ''"
    by (rule execute_query_resets_history [THEN conjunct2, THEN conjunct2])
  show ?thesis by (simp only: same fresh prompt)
qed

end
